theory Spec2Isabelle
  imports Complex_Main
begin

section \<open>JavaScript numbers and dates\<close>

text \<open>
  A JavaScript \<open>number\<close> is modelled as a real or \<open>NaN\<close>: finite doubles are read as the
  reals they denote (rounding and the infinities are outside the model), and \<open>NaN\<close> is
  explicit, since the code relies on every comparison with \<open>NaN\<close> being false.
\<close>

datatype number = NaN | Num real

fun num_add :: "number \<Rightarrow> number \<Rightarrow> number" where
  "num_add (Num x) (Num y) = Num (x + y)"
| "num_add _ _ = NaN"

fun num_sub :: "number \<Rightarrow> number \<Rightarrow> number" where
  "num_sub (Num x) (Num y) = Num (x - y)"
| "num_sub _ _ = NaN"

fun num_mul :: "number \<Rightarrow> number \<Rightarrow> number" where
  "num_mul (Num x) (Num y) = Num (x * y)"
| "num_mul _ _ = NaN"

text \<open>
  Division: \<open>0 / 0\<close> is \<open>NaN\<close>. A non-zero dividend over zero is an infinity in JavaScript;
  no division of the calculator reaches that case (its divisors are the constants 5 and
  \<open>Math.PI\<close>, two counters guarded by \<open>> 0\<close>, and \<open>durationMinutes\<close>, whose dividend
  \<open>Math.min(i * 5, durationMinutes)\<close> is 0 at the only index the loop visits when it is 0).
\<close>

fun num_div :: "number \<Rightarrow> number \<Rightarrow> number" where
  "num_div (Num x) (Num y) = (if y = 0 then NaN else Num (x / y))"
| "num_div _ _ = NaN"

text \<open>The remainder operator \<open>%\<close>: the quotient is truncated towards zero.\<close>

definition trunc :: "real \<Rightarrow> int" where
  "trunc x = (if 0 \<le> x then \<lfloor>x\<rfloor> else \<lceil>x\<rceil>)"

fun num_rem :: "number \<Rightarrow> number \<Rightarrow> number" where
  "num_rem (Num x) (Num y) = (if y = 0 then NaN else Num (x - y * of_int (trunc (x / y))))"
| "num_rem _ _ = NaN"

fun num_lt :: "number \<Rightarrow> number \<Rightarrow> bool" where
  "num_lt (Num x) (Num y) = (x < y)"
| "num_lt _ _ = False"

fun num_gt :: "number \<Rightarrow> number \<Rightarrow> bool" where
  "num_gt (Num x) (Num y) = (x > y)"
| "num_gt _ _ = False"

fun num_le :: "number \<Rightarrow> number \<Rightarrow> bool" where
  "num_le (Num x) (Num y) = (x \<le> y)"
| "num_le _ _ = False"

fun Math_abs :: "number \<Rightarrow> number" where
  "Math_abs (Num x) = Num \<bar>x\<bar>"
| "Math_abs NaN = NaN"

fun Math_min :: "number \<Rightarrow> number \<Rightarrow> number" where
  "Math_min (Num x) (Num y) = Num (min x y)"
| "Math_min _ _ = NaN"

fun Math_ceil :: "number \<Rightarrow> number" where
  "Math_ceil (Num x) = Num (of_int \<lceil>x\<rceil>)"
| "Math_ceil NaN = NaN"

text \<open>
  A \<open>Date\<close> holds a time value: an integral number of milliseconds since the epoch, or
  \<open>NaN\<close> (an Invalid Date). \<open>new Date(v)\<close> clips \<open>v\<close>: \<open>NaN\<close> and values beyond
  8.64e15 ms give an Invalid Date, any other value is truncated to an integer.
\<close>

datatype Date = InvalidDate | ValidDate int

fun getTime :: "Date \<Rightarrow> number" where
  "getTime InvalidDate = NaN"
| "getTime (ValidDate t) = Num (of_int t)"

fun new_Date :: "number \<Rightarrow> Date" where
  "new_Date NaN = InvalidDate"
| "new_Date (Num v) = (if \<bar>v\<bar> > 8640000000000000 then InvalidDate else ValidDate (trunc v))"

section \<open>Types of the flight calculator\<close>

record Airport =
  iata :: string
  name :: string
  latitude :: number
  longitude :: number

record FlightDetails =
  departure :: string
  arrival :: string
  departureTime :: Date
  durationMinutes :: number

datatype event_type = sunrise | sunset

datatype side = left | right

datatype recommendation_side = rec_left | rec_right | either

record Location =
  lat :: number
  lon :: number

record SunEvent =
  ev_type :: event_type
  ev_time :: Date
  ev_location :: Location
  ev_sunAzimuth :: number
  ev_aircraftBearing :: number
  ev_viewingSide :: side
  ev_elevation :: number

record SunPositionInfo =
  azimuth :: number
  elevation :: number
  visible :: bool

record FlightPathPoint =
  time :: Date
  location :: Location
  progress :: number
  sunPosition :: SunPositionInfo
  aircraftBearing :: number
  viewingSide :: "side option"

record Summary =
  totalSunriseEvents :: nat
  totalSunsetEvents :: nat
  averageSunVisibility :: number
  bestViewingSide :: recommendation_side

record GlobeData =
  gd_departure :: Airport
  gd_arrival :: Airport
  flightPath :: "FlightPathPoint list"
  totalDistance :: number
  totalDuration :: number
  summary :: Summary

record FlightRecommendation =
  recommendation :: recommendation_side
  confidence :: number
  description :: string
  events :: "SunEvent list"
  globeData :: GlobeData

subsection \<open>The libraries and the airport table\<close>

text \<open>
  The calculator imports \<open>geolib\<close>, \<open>suncalc\<close>, \<open>date-fns-tz\<close> and the airport table
  \<open>data/airports.json\<close>. They are parameters of the model, collected in one record.
  Coordinates for \<open>geolib\<close> are objects \<open>{latitude, longitude}\<close>.
\<close>

record Coords =
  c_latitude :: number
  c_longitude :: number

record SunCalcPosition =
  sc_azimuth :: number
  sc_altitude :: number

record SunCalcTimes =
  sc_sunrise :: Date
  sc_sunset :: Date

record Env =
  airports :: "Airport list"
  getDistance :: "Coords \<Rightarrow> Coords \<Rightarrow> number"
  getRhumbLineBearing :: "Coords \<Rightarrow> Coords \<Rightarrow> number"
  computeDestinationPoint :: "Coords \<Rightarrow> number \<Rightarrow> number \<Rightarrow> Coords"
  getPosition :: "Date \<Rightarrow> number \<Rightarrow> number \<Rightarrow> SunCalcPosition"
  getTimes :: "Date \<Rightarrow> number \<Rightarrow> number \<Rightarrow> SunCalcTimes"
  formatInTimeZone :: "int \<Rightarrow> string"

text \<open>A thrown \<open>Error\<close> with its message.\<close>

datatype error = Error string

section \<open>The flight calculator\<close>

subsection \<open>Steps 1 to 3: airports, coordinates, distance and bearing\<close>

definition findAirport :: "Airport list \<Rightarrow> string \<Rightarrow> Airport option" where
  "findAirport as code = List.find (\<lambda>airport. iata airport = code) as"

definition coordsOf :: "Airport \<Rightarrow> Coords" where
  "coordsOf airport = \<lparr>c_latitude = latitude airport, c_longitude = longitude airport\<rparr>"

definition totalDistanceOf :: "Env \<Rightarrow> Airport \<Rightarrow> Airport \<Rightarrow> number" where
  "totalDistanceOf env departureAirport arrivalAirport =
     getDistance env (coordsOf departureAirport) (coordsOf arrivalAirport)"

definition flightBearing :: "Env \<Rightarrow> Airport \<Rightarrow> Airport \<Rightarrow> number" where
  "flightBearing env departureAirport arrivalAirport =
     getRhumbLineBearing env (coordsOf departureAirport) (coordsOf arrivalAirport)"

definition intervalMinutes :: number where
  "intervalMinutes = Num 5"

definition numIntervals :: "FlightDetails \<Rightarrow> number" where
  "numIntervals fd = Math_ceil (num_div (durationMinutes fd) intervalMinutes)"

subsection \<open>Step 5: the locals of the sampling loop, as functions of the index\<close>

definition timeOffsetMinutes :: "FlightDetails \<Rightarrow> int \<Rightarrow> number" where
  "timeOffsetMinutes fd i =
     Math_min (num_mul (Num (of_int i)) intervalMinutes) (durationMinutes fd)"

definition progressAt :: "FlightDetails \<Rightarrow> int \<Rightarrow> number" where
  "progressAt fd i = num_div (timeOffsetMinutes fd i) (durationMinutes fd)"

definition currentPosition :: "Env \<Rightarrow> FlightDetails \<Rightarrow> Airport \<Rightarrow> Airport \<Rightarrow> int \<Rightarrow> Coords" where
  "currentPosition env fd dep arr i =
     computeDestinationPoint env (coordsOf dep)
       (num_mul (totalDistanceOf env dep arr) (progressAt fd i))
       (flightBearing env dep arr)"

definition currentTime :: "FlightDetails \<Rightarrow> int \<Rightarrow> Date" where
  "currentTime fd i =
     new_Date (num_add (getTime (departureTime fd))
                 (num_mul (num_mul (timeOffsetMinutes fd i) (Num 60)) (Num 1000)))"

definition sunPositionAt :: "Env \<Rightarrow> FlightDetails \<Rightarrow> Airport \<Rightarrow> Airport \<Rightarrow> int \<Rightarrow> SunCalcPosition" where
  "sunPositionAt env fd dep arr i =
     getPosition env (currentTime fd i)
       (c_latitude (currentPosition env fd dep arr i))
       (c_longitude (currentPosition env fd dep arr i))"

definition sunAzimuthDegrees :: "Env \<Rightarrow> FlightDetails \<Rightarrow> Airport \<Rightarrow> Airport \<Rightarrow> int \<Rightarrow> number" where
  "sunAzimuthDegrees env fd dep arr i =
     num_rem (num_add (num_div (num_mul (sc_azimuth (sunPositionAt env fd dep arr i)) (Num 180))
                         (Num pi))
                (Num 180))
       (Num 360)"

definition sunElevationDegrees :: "Env \<Rightarrow> FlightDetails \<Rightarrow> Airport \<Rightarrow> Airport \<Rightarrow> int \<Rightarrow> number" where
  "sunElevationDegrees env fd dep arr i =
     num_div (num_mul (sc_altitude (sunPositionAt env fd dep arr i)) (Num 180)) (Num pi)"

definition sunVisible :: "Env \<Rightarrow> FlightDetails \<Rightarrow> Airport \<Rightarrow> Airport \<Rightarrow> int \<Rightarrow> bool" where
  "sunVisible env fd dep arr i = num_gt (sunElevationDegrees env fd dep arr i) (Num 0)"

text \<open>The side of the aircraft: the difference of azimuth and bearing, shifted once by 360.\<close>

definition azimuthDiff :: "number \<Rightarrow> number \<Rightarrow> number" where
  "azimuthDiff sunAzimuth bearing =
     (let d0 = num_sub sunAzimuth bearing;
          d1 = (if num_lt d0 (Num 0) then num_add d0 (Num 360) else d0);
          d2 = (if num_gt d1 (Num 360) then num_sub d1 (Num 360) else d1)
      in d2)"

definition sideOf :: "number \<Rightarrow> side" where
  "sideOf diff = (if num_gt diff (Num 0) \<and> num_lt diff (Num 180) then right else left)"

definition viewingSideAt :: "Env \<Rightarrow> FlightDetails \<Rightarrow> Airport \<Rightarrow> Airport \<Rightarrow> int \<Rightarrow> side option" where
  "viewingSideAt env fd dep arr i =
     (if sunVisible env fd dep arr i
      then Some (sideOf (azimuthDiff (sunAzimuthDegrees env fd dep arr i) (flightBearing env dep arr)))
      else None)"

definition locationAt :: "Env \<Rightarrow> FlightDetails \<Rightarrow> Airport \<Rightarrow> Airport \<Rightarrow> int \<Rightarrow> Location" where
  "locationAt env fd dep arr i =
     \<lparr>lat = c_latitude (currentPosition env fd dep arr i),
      lon = c_longitude (currentPosition env fd dep arr i)\<rparr>"

text \<open>The sunrise and sunset of the sample, and whether the sample is within 15 minutes of them.\<close>

definition sunTimesAt :: "Env \<Rightarrow> FlightDetails \<Rightarrow> Airport \<Rightarrow> Airport \<Rightarrow> int \<Rightarrow> SunCalcTimes" where
  "sunTimesAt env fd dep arr i =
     getTimes env (currentTime fd i)
       (c_latitude (currentPosition env fd dep arr i))
       (c_longitude (currentPosition env fd dep arr i))"

definition isNearSunrise :: "Env \<Rightarrow> FlightDetails \<Rightarrow> Airport \<Rightarrow> Airport \<Rightarrow> int \<Rightarrow> bool" where
  "isNearSunrise env fd dep arr i =
     num_lt (Math_abs (num_sub (getTime (currentTime fd i))
                         (getTime (sc_sunrise (sunTimesAt env fd dep arr i)))))
       (Num (15 * 60 * 1000))"

definition isNearSunset :: "Env \<Rightarrow> FlightDetails \<Rightarrow> Airport \<Rightarrow> Airport \<Rightarrow> int \<Rightarrow> bool" where
  "isNearSunset env fd dep arr i =
     num_lt (Math_abs (num_sub (getTime (currentTime fd i))
                         (getTime (sc_sunset (sunTimesAt env fd dep arr i)))))
       (Num (15 * 60 * 1000))"

text \<open>
  The event pushed at sample \<open>i\<close>, if any. The push is inside the branch \<open>if (sunVisible)\<close>,
  after the viewing side has been set.
\<close>

definition eventAt :: "Env \<Rightarrow> FlightDetails \<Rightarrow> Airport \<Rightarrow> Airport \<Rightarrow> int \<Rightarrow> SunEvent option" where
  "eventAt env fd dep arr i =
     (if sunVisible env fd dep arr i then
        (if (isNearSunrise env fd dep arr i \<or> isNearSunset env fd dep arr i)
            \<and> num_gt (sunElevationDegrees env fd dep arr i) (Num (- 5))
         then Some \<lparr>ev_type = (if isNearSunrise env fd dep arr i then sunrise else sunset),
                    ev_time = currentTime fd i,
                    ev_location = locationAt env fd dep arr i,
                    ev_sunAzimuth = sunAzimuthDegrees env fd dep arr i,
                    ev_aircraftBearing = flightBearing env dep arr,
                    ev_viewingSide =
                      sideOf (azimuthDiff (sunAzimuthDegrees env fd dep arr i)
                                (flightBearing env dep arr)),
                    ev_elevation = sunElevationDegrees env fd dep arr i\<rparr>
         else None)
      else None)"

definition pointAt :: "Env \<Rightarrow> FlightDetails \<Rightarrow> Airport \<Rightarrow> Airport \<Rightarrow> int \<Rightarrow> FlightPathPoint" where
  "pointAt env fd dep arr i =
     \<lparr>time = currentTime fd i,
      location = locationAt env fd dep arr i,
      progress = progressAt fd i,
      sunPosition = \<lparr>azimuth = sunAzimuthDegrees env fd dep arr i,
                     elevation = sunElevationDegrees env fd dep arr i,
                     visible = sunVisible env fd dep arr i\<rparr>,
      aircraftBearing = flightBearing env dep arr,
      viewingSide = viewingSideAt env fd dep arr i\<rparr>"

text \<open>The variables the loop updates, and one pass through its body.\<close>

record LoopState =
  st_flightPath :: "FlightPathPoint list"
  st_sunEvents :: "SunEvent list"
  st_sunVisibleCount :: nat
  st_leftSideCount :: nat
  st_rightSideCount :: nat

definition initialState :: LoopState where
  "initialState = \<lparr>st_flightPath = [], st_sunEvents = [], st_sunVisibleCount = 0,
                    st_leftSideCount = 0, st_rightSideCount = 0\<rparr>"

definition loop_body :: "Env \<Rightarrow> FlightDetails \<Rightarrow> Airport \<Rightarrow> Airport \<Rightarrow> int \<Rightarrow> LoopState \<Rightarrow> LoopState" where
  "loop_body env fd dep arr i st =
     (let st1 =
        (if sunVisible env fd dep arr i then
           (let st2 = st\<lparr>st_sunVisibleCount := st_sunVisibleCount st + 1\<rparr>;
                st3 = (if viewingSideAt env fd dep arr i = Some left
                       then st2\<lparr>st_leftSideCount := st_leftSideCount st2 + 1\<rparr>
                       else st2\<lparr>st_rightSideCount := st_rightSideCount st2 + 1\<rparr>)
            in (case eventAt env fd dep arr i of
                  None \<Rightarrow> st3
                | Some e \<Rightarrow> st3\<lparr>st_sunEvents := st_sunEvents st3 @ [e]\<rparr>))
         else st)
      in st1\<lparr>st_flightPath := st_flightPath st1 @ [pointAt env fd dep arr i]\<rparr>)"

text \<open>The loop \<open>for (let i = 0; i <= numIntervals; i++)\<close>.\<close>

function loop :: "Env \<Rightarrow> FlightDetails \<Rightarrow> Airport \<Rightarrow> Airport \<Rightarrow> number \<Rightarrow> int \<Rightarrow> LoopState \<Rightarrow> LoopState" where
  "loop env fd dep arr n i st =
     (if num_le (Num (of_int i)) n
      then loop env fd dep arr n (i + 1) (loop_body env fd dep arr i st)
      else st)"
  by pat_completeness auto
termination
proof (relation "measure (\<lambda>(env, fd, dep, arr, n, i, st).
                   case n of NaN \<Rightarrow> 0 | Num r \<Rightarrow> nat (\<lfloor>r\<rfloor> + 1 - i))")
  show "wf (measure (\<lambda>(env :: Env, fd :: FlightDetails, dep :: Airport, arr :: Airport, n, i, st :: LoopState).
                   case n of NaN \<Rightarrow> 0 | Num r \<Rightarrow> nat (\<lfloor>r\<rfloor> + 1 - i)))"
    by simp
next
  fix env :: Env and fd :: FlightDetails and dep arr :: Airport and n i and st :: LoopState
  assume le: "num_le (Num (real_of_int i)) n"
  then obtain r where n: "n = Num r" and ir: "real_of_int i \<le> r"
    by (cases n) auto
  from ir have "i \<le> \<lfloor>r\<rfloor>" by (simp add: le_floor_iff)
  with n show "((env, fd, dep, arr, n, i + 1, loop_body env fd dep arr i st),
                (env, fd, dep, arr, n, i, st))
               \<in> measure (\<lambda>(env, fd, dep, arr, n, i, st).
                   case n of NaN \<Rightarrow> 0 | Num r \<Rightarrow> nat (\<lfloor>r\<rfloor> + 1 - i))"
    by simp
qed

declare loop.simps [simp del]

text \<open>The state after the loop.\<close>

definition sampled :: "Env \<Rightarrow> FlightDetails \<Rightarrow> Airport \<Rightarrow> Airport \<Rightarrow> LoopState" where
  "sampled env fd dep arr = loop env fd dep arr (numIntervals fd) 0 initialState"

subsection \<open>Step 6: deduplication, recommendation and summary\<close>

text \<open>\<open>Array.prototype.findIndex\<close>: the first index whose element satisfies the test, or -1.\<close>

fun findIndex :: "('a \<Rightarrow> bool) \<Rightarrow> 'a list \<Rightarrow> int" where
  "findIndex P [] = - 1"
| "findIndex P (x # xs) =
     (if P x then 0 else (let r = findIndex P xs in if r = - 1 then - 1 else r + 1))"

text \<open>The test of the deduplication: same type, and times less than 10 minutes apart.\<close>

definition sameEvent :: "SunEvent \<Rightarrow> SunEvent \<Rightarrow> bool" where
  "sameEvent event e \<longleftrightarrow>
     ev_type e = ev_type event \<and>
     num_lt (Math_abs (num_sub (getTime (ev_time e)) (getTime (ev_time event))))
       (Num (10 * 60 * 1000))"

text \<open>
  \<open>sunEvents.filter((event, index, self) => index === self.findIndex(...))\<close>: the events
  are paired with their indices, and the pairs that pass the test are kept.
\<close>

definition retained :: "SunEvent list \<Rightarrow> (nat \<times> SunEvent) list" where
  "retained self =
     filter (\<lambda>(index, event). int index = findIndex (sameEvent event) self) (enumerate 0 self)"

definition uniqueEvents :: "SunEvent list \<Rightarrow> SunEvent list" where
  "uniqueEvents self = map snd (retained self)"

text \<open>Numbers and the string unions inside template strings.\<close>

fun string_of_nat :: "nat \<Rightarrow> string" where
  "string_of_nat n =
     (if n < 10 then [char_of (48 + n)]
      else string_of_nat (n div 10) @ [char_of (48 + n mod 10)])"

fun string_of_type :: "event_type \<Rightarrow> string" where
  "string_of_type sunrise = ''sunrise''"
| "string_of_type sunset = ''sunset''"

fun string_of_side :: "side \<Rightarrow> string" where
  "string_of_side left = ''left''"
| "string_of_side right = ''right''"

text \<open>
  \<open>formatInTimeZone(event.time, 'UTC', 'HH:mm')\<close> throws a \<open>RangeError\<close> on an Invalid Date.
\<close>

definition formatTime :: "Env \<Rightarrow> Date \<Rightarrow> error + string" where
  "formatTime env d =
     (case d of InvalidDate \<Rightarrow> Inl (Error ''Invalid time value'')
              | ValidDate t \<Rightarrow> Inr (formatInTimeZone env t))"

fun eventDescriptions :: "Env \<Rightarrow> SunEvent list \<Rightarrow> error + string list" where
  "eventDescriptions env [] = Inr []"
| "eventDescriptions env (event # rest) =
     (case formatTime env (ev_time event) of
        Inl err \<Rightarrow> Inl err
      | Inr timeStr \<Rightarrow>
          (case eventDescriptions env rest of
             Inl err \<Rightarrow> Inl err
           | Inr ds \<Rightarrow>
               Inr ((string_of_type (ev_type event) @ '' at '' @ timeStr @ '' UTC (''
                       @ string_of_side (ev_viewingSide event) @ '' side)'') # ds)))"

fun join :: "string \<Rightarrow> string list \<Rightarrow> string" where
  "join sep [] = []"
| "join sep [x] = x"
| "join sep (x # y # ys) = x @ sep @ join sep (y # ys)"

text \<open>
  The recommendation, its confidence and its description, from the deduplicated events
  and the three counters of the loop.
\<close>

definition recommend ::
  "Env \<Rightarrow> SunEvent list \<Rightarrow> nat \<Rightarrow> nat \<Rightarrow> nat \<Rightarrow> error + (recommendation_side \<times> number \<times> string)" where
  "recommend env unique sunVisibleCount leftSideCount rightSideCount =
     (if length unique > 0 then
        (let leftEvents = length (filter (\<lambda>e. ev_viewingSide e = left) unique);
             rightEvents = length (filter (\<lambda>e. ev_viewingSide e = right) unique);
             (r, c, d) =
               (if leftEvents > rightEvents then
                  (rec_left,
                   Math_min (Num 95) (num_add (Num 60) (num_mul (Num (real leftEvents)) (Num 15))),
                   ''Choose the LEFT side for the best view! '' @ string_of_nat leftEvents
                     @ '' sunrise/sunset event(s) visible on the left side.'')
                else if rightEvents > leftEvents then
                  (rec_right,
                   Math_min (Num 95) (num_add (Num 60) (num_mul (Num (real rightEvents)) (Num 15))),
                   ''Choose the RIGHT side for the best view! '' @ string_of_nat rightEvents
                     @ '' sunrise/sunset event(s) visible on the right side.'')
                else
                  (either, Num 75,
                   ''Either side works well! Sunrise/sunset events are visible from both sides of the aircraft.''))
         in (case eventDescriptions env unique of
               Inl err \<Rightarrow> Inl err
             | Inr ds \<Rightarrow> Inr (r, c, d @ '' Events: '' @ join '', '' ds @ ''.'')))
      else if sunVisibleCount > 0 then
        (if num_gt (Num (real leftSideCount)) (num_mul (Num (real rightSideCount)) (Num 1.2)) then
           Inr (rec_left,
                Math_min (Num 80)
                  (num_add (Num 50)
                     (num_mul (num_div (Num (real leftSideCount)) (Num (real sunVisibleCount))) (Num 30))),
                ''Choose the LEFT side for better sun exposure during the flight.'')
         else if num_gt (Num (real rightSideCount)) (num_mul (Num (real leftSideCount)) (Num 1.2)) then
           Inr (rec_right,
                Math_min (Num 80)
                  (num_add (Num 50)
                     (num_mul (num_div (Num (real rightSideCount)) (Num (real sunVisibleCount))) (Num 30))),
                ''Choose the RIGHT side for better sun exposure during the flight.'')
         else
           Inr (either, Num 50,
                ''No significant sunrise or sunset events detected during this flight.''))
      else
        Inr (either, Num 50,
             ''No significant sunrise or sunset events detected during this flight.''))"

subsection \<open>The body of the try block, and the function with its catch\<close>

definition calculate :: "Env \<Rightarrow> FlightDetails \<Rightarrow> error + FlightRecommendation" where
  "calculate env fd =
     (case (findAirport (airports env) (departure fd), findAirport (airports env) (arrival fd)) of
        (None, _) \<Rightarrow> Inl (Error (''Airport not found: '' @ departure fd))
      | (Some _, None) \<Rightarrow> Inl (Error (''Airport not found: '' @ arrival fd))
      | (Some departureAirport, Some arrivalAirport) \<Rightarrow>
          (let st = sampled env fd departureAirport arrivalAirport;
               unique = uniqueEvents (st_sunEvents st)
           in (case recommend env unique (st_sunVisibleCount st) (st_leftSideCount st)
                       (st_rightSideCount st) of
                 Inl err \<Rightarrow> Inl err
               | Inr (r, c, d) \<Rightarrow>
                   Inr \<lparr>recommendation = r,
                        confidence = c,
                        description = d,
                        events = unique,
                        globeData =
                          \<lparr>gd_departure = departureAirport,
                           gd_arrival = arrivalAirport,
                           flightPath = st_flightPath st,
                           totalDistance = totalDistanceOf env departureAirport arrivalAirport,
                           totalDuration = durationMinutes fd,
                           summary =
                             \<lparr>totalSunriseEvents = length (filter (\<lambda>e. ev_type e = sunrise) unique),
                              totalSunsetEvents = length (filter (\<lambda>e. ev_type e = sunset) unique),
                              averageSunVisibility =
                                (if length (st_flightPath st) > 0
                                 then num_mul (num_div (Num (real (st_sunVisibleCount st)))
                                                 (Num (real (length (st_flightPath st)))))
                                        (Num 100)
                                 else Num 0),
                              bestViewingSide = r\<rparr>\<rparr>\<rparr>)))"

definition errorResult :: "FlightDetails \<Rightarrow> error \<Rightarrow> FlightRecommendation" where
  "errorResult fd err =
     (case err of Error message \<Rightarrow>
        \<lparr>recommendation = either,
         confidence = Num 0,
         description = ''Unable to calculate sun position: '' @ message,
         events = [],
         globeData =
           \<lparr>gd_departure = \<lparr>iata = departure fd, name = ''Unknown'',
                            latitude = Num 0, longitude = Num 0\<rparr>,
            gd_arrival = \<lparr>iata = arrival fd, name = ''Unknown'',
                          latitude = Num 0, longitude = Num 0\<rparr>,
            flightPath = [],
            totalDistance = Num 0,
            totalDuration = durationMinutes fd,
            summary = \<lparr>totalSunriseEvents = 0, totalSunsetEvents = 0,
                       averageSunVisibility = Num 0, bestViewingSide = either\<rparr>\<rparr>\<rparr>)"

definition calculateSunPositionForFlight :: "Env \<Rightarrow> FlightDetails \<Rightarrow> FlightRecommendation" where
  "calculateSunPositionForFlight env fd =
     (case calculate env fd of Inr result \<Rightarrow> result | Inl err \<Rightarrow> errorResult fd err)"

section \<open>Auxiliary definitions\<close>

text \<open>The indices the loop visits when it is entered at index \<open>i\<close> with bound \<open>n\<close>.\<close>

definition indicesFrom :: "number \<Rightarrow> int \<Rightarrow> int list" where
  "indicesFrom n i = (case n of NaN \<Rightarrow> [] | Num r \<Rightarrow> [i..\<lfloor>r\<rfloor>])"

text \<open>
  The normalisation of an angle into the interval from 0 (included) to 360 (excluded),
  as the specification words it: the remainder of the angle modulo 360.
\<close>

definition normalize360 :: "real \<Rightarrow> real" where
  "normalize360 x = x - 360 * of_int \<lfloor>x / 360\<rfloor>"

subsection \<open>Example inputs\<close>

text \<open>A sunrise event seen on the right at time \<open>t\<close>, for the examples.\<close>

definition exampleEvent :: "int \<Rightarrow> SunEvent" where
  "exampleEvent t =
     \<lparr>ev_type = sunrise, ev_time = ValidDate t, ev_location = \<lparr>lat = Num 0, lon = Num 0\<rparr>,
      ev_sunAzimuth = Num 90, ev_aircraftBearing = Num 0, ev_viewingSide = right,
      ev_elevation = Num 1\<rparr>"

text \<open>
  An example: two airports, a flight of 12 minutes between them, and stand-ins for the
  libraries. The sun is up during the first 7.5 minutes, due south (azimuth 0 radians
  in the convention of \<open>suncalc\<close>), the bearing is 90 degrees, and sunrise is at the
  departure time.
\<close>

definition JFK :: Airport where
  "JFK = \<lparr>iata = ''JFK'', name = ''John F Kennedy International Airport'',
           latitude = Num 40.64, longitude = Num (- 73.78)\<rparr>"

definition LHR :: Airport where
  "LHR = \<lparr>iata = ''LHR'', name = ''London Heathrow Airport'',
           latitude = Num 51.47, longitude = Num (- 0.45)\<rparr>"

definition exampleAirports :: "Airport list" where
  "exampleAirports = [JFK, LHR]"

definition exampleEnv :: Env where
  "exampleEnv =
     \<lparr>airports = exampleAirports,
      getDistance = (\<lambda>a b. if a = b then Num 0 else Num 5540000),
      getRhumbLineBearing = (\<lambda>a b. Num 90),
      computeDestinationPoint =
        (\<lambda>c d b. if d = Num 0 then c
                  else \<lparr>c_latitude = c_latitude c,
                        c_longitude = num_add (c_longitude c) (num_div d (Num 100000))\<rparr>),
      getPosition =
        (\<lambda>t la lo. \<lparr>sc_azimuth = Num 0,
                      sc_altitude = (case t of InvalidDate \<Rightarrow> NaN
                                     | ValidDate ms \<Rightarrow> if ms < 450000 then Num (1 / 10)
                                                      else Num (- (1 / 10)))\<rparr>),
      getTimes = (\<lambda>t la lo. \<lparr>sc_sunrise = ValidDate 0, sc_sunset = ValidDate 43200000\<rparr>),
      formatInTimeZone = (\<lambda>t. ''00:00'')\<rparr>"

definition exampleFlight :: FlightDetails where
  "exampleFlight =
     \<lparr>departure = ''JFK'', arrival = ''LHR'', departureTime = ValidDate 0,
      durationMinutes = Num 12\<rparr>"

text \<open>The same libraries at a place and date without sunrise and sunset.\<close>

definition polarEnv :: Env where
  "polarEnv =
     exampleEnv\<lparr>getTimes := (\<lambda>t la lo. \<lparr>sc_sunrise = InvalidDate, sc_sunset = InvalidDate\<rparr>)\<rparr>"

text \<open>The event of the example flight: sunrise at departure, seen on the right.\<close>

definition exampleSunrise :: SunEvent where
  "exampleSunrise =
     \<lparr>ev_type = sunrise, ev_time = ValidDate 0,
      ev_location = \<lparr>lat = Num 40.64, lon = Num (- 73.78)\<rparr>,
      ev_sunAzimuth = Num 180, ev_aircraftBearing = Num 90, ev_viewingSide = right,
      ev_elevation = Num (18 / pi)\<rparr>"

text \<open>The example flight with the arrival code equal to the departure code.\<close>

definition roundTrip :: FlightDetails where
  "roundTrip = exampleFlight\<lparr>arrival := ''JFK''\<rparr>"


text \<open>
  Stand-ins with several events: the sun is always up, sunrise is at the departure,
  sunset 20 minutes later and a second sunrise 40 minutes later; the sun is due south
  before the instant \<open>switch\<close> and due north from it on, and the destination
  function returns its origin. The events of such a flight, and flights of 40 and 25
  minutes.
\<close>

definition eventfulEnv :: "int \<Rightarrow> Env" where
  "eventfulEnv switch =
     exampleEnv
       \<lparr>computeDestinationPoint := (\<lambda>c d b. c),
        getPosition :=
          (\<lambda>t la lo. \<lparr>sc_azimuth = (case t of InvalidDate \<Rightarrow> NaN
                                       | ValidDate ms \<Rightarrow> if ms < switch then Num 0 else Num (- pi)),
                        sc_altitude = Num (1 / 10)\<rparr>),
        getTimes :=
          (\<lambda>t la lo.
             case t of
               InvalidDate \<Rightarrow> \<lparr>sc_sunrise = InvalidDate, sc_sunset = InvalidDate\<rparr>
             | ValidDate ms \<Rightarrow>
                 if ms < 900000 then \<lparr>sc_sunrise = ValidDate 0, sc_sunset = InvalidDate\<rparr>
                 else if ms < 1800000
                   then \<lparr>sc_sunrise = InvalidDate, sc_sunset = ValidDate 1200000\<rparr>
                   else \<lparr>sc_sunrise = ValidDate 2400000, sc_sunset = InvalidDate\<rparr>)\<rparr>"

definition eventfulEvent :: "int \<Rightarrow> event_type \<Rightarrow> int \<Rightarrow> SunEvent" where
  "eventfulEvent switch ty t =
     \<lparr>ev_type = ty, ev_time = ValidDate t,
      ev_location = \<lparr>lat = Num 40.64, lon = Num (- 73.78)\<rparr>,
      ev_sunAzimuth = (if t < switch then Num 180 else Num 0),
      ev_aircraftBearing = Num 90,
      ev_viewingSide = (if t < switch then right else left),
      ev_elevation = Num (18 / pi)\<rparr>"

definition flight40 :: FlightDetails where
  "flight40 = exampleFlight\<lparr>durationMinutes := Num 40\<rparr>"

definition flight25 :: FlightDetails where
  "flight25 = exampleFlight\<lparr>durationMinutes := Num 25\<rparr>"

text \<open>
  The example flight with a duration that is not a whole number of milliseconds, with an
  Invalid Date as departure, and with the last instant a \<open>Date\<close> can hold as departure.
\<close>

definition fractionalFlight :: FlightDetails where
  "fractionalFlight = exampleFlight\<lparr>durationMinutes := Num 30.000000001\<rparr>"

definition invalidDeparture :: FlightDetails where
  "invalidDeparture = exampleFlight\<lparr>departureTime := InvalidDate\<rparr>"

definition lateDeparture :: FlightDetails where
  "lateDeparture = exampleFlight\<lparr>departureTime := ValidDate 8640000000000000\<rparr>"



section \<open>Properties\<close>

subsection \<open>The sampling loop\<close>


lemma indicesFrom_step:
  "num_le (Num (of_int i)) n \<Longrightarrow> indicesFrom n i = i # indicesFrom n (i + 1)"
  by (cases n) (auto simp: indicesFrom_def le_floor_iff upto_rec1)

lemma indicesFrom_stop:
  "\<not> num_le (Num (of_int i)) n \<Longrightarrow> indicesFrom n i = []"
  by (cases n) (auto simp: indicesFrom_def floor_less_iff not_le)

lemma loop_foldl:
  "loop env fd dep arr n i st =
     foldl (\<lambda>s j. loop_body env fd dep arr j s) st (indicesFrom n i)"
proof (induction env fd dep arr n i st rule: loop.induct)
  case (1 env fd dep arr n i st)
  show ?case
  proof (cases "num_le (Num (of_int i)) n")
    case True
    then show ?thesis
      using "1.IH" by (subst loop.simps) (simp add: indicesFrom_step)
  next
    case False
    then show ?thesis
      by (subst loop.simps) (simp add: indicesFrom_stop)
  qed
qed

lemma eventAt_visible: "eventAt env fd dep arr i = Some e \<Longrightarrow> sunVisible env fd dep arr i"
  by (auto simp: eventAt_def split: if_splits)

lemma loop_body_flightPath:
  "st_flightPath (loop_body env fd dep arr i st) = st_flightPath st @ [pointAt env fd dep arr i]"
  by (simp add: loop_body_def Let_def split: option.splits)

lemma loop_body_sunEvents:
  "st_sunEvents (loop_body env fd dep arr i st) =
     st_sunEvents st @ (case eventAt env fd dep arr i of None \<Rightarrow> [] | Some e \<Rightarrow> [e])"
  by (auto simp: loop_body_def Let_def eventAt_def split: option.splits)

lemma loop_body_sunVisibleCount:
  "st_sunVisibleCount (loop_body env fd dep arr i st) =
     st_sunVisibleCount st + (if sunVisible env fd dep arr i then 1 else 0)"
  by (simp add: loop_body_def Let_def split: option.splits)

lemma loop_body_leftSideCount:
  "st_leftSideCount (loop_body env fd dep arr i st) =
     st_leftSideCount st + (if viewingSideAt env fd dep arr i = Some left then 1 else 0)"
  by (auto simp: loop_body_def Let_def viewingSideAt_def split: option.splits)

lemma loop_body_rightSideCount:
  "st_rightSideCount (loop_body env fd dep arr i st) =
     st_rightSideCount st + (if viewingSideAt env fd dep arr i = Some right then 1 else 0)"
proof -
  have "sideOf d \<noteq> left \<longleftrightarrow> sideOf d = right" for d
    by (cases "sideOf d") auto
  then show ?thesis
    by (auto simp: loop_body_def Let_def viewingSideAt_def split: option.splits)
qed

lemma foldl_flightPath:
  "st_flightPath (foldl (\<lambda>s j. loop_body env fd dep arr j s) st js) =
     st_flightPath st @ map (pointAt env fd dep arr) js"
  by (induction js arbitrary: st) (simp_all add: loop_body_flightPath)

lemma foldl_sunEvents:
  "st_sunEvents (foldl (\<lambda>s j. loop_body env fd dep arr j s) st js) =
     st_sunEvents st @ List.map_filter (eventAt env fd dep arr) js"
  by (induction js arbitrary: st)
     (simp_all add: loop_body_sunEvents map_filter_simps split: option.splits)

lemma foldl_sunVisibleCount:
  "st_sunVisibleCount (foldl (\<lambda>s j. loop_body env fd dep arr j s) st js) =
     st_sunVisibleCount st + length (filter (sunVisible env fd dep arr) js)"
  by (induction js arbitrary: st) (simp_all add: loop_body_sunVisibleCount)

lemma foldl_leftSideCount:
  "st_leftSideCount (foldl (\<lambda>s j. loop_body env fd dep arr j s) st js) =
     st_leftSideCount st + length (filter (\<lambda>j. viewingSideAt env fd dep arr j = Some left) js)"
  by (induction js arbitrary: st) (simp_all add: loop_body_leftSideCount)

lemma foldl_rightSideCount:
  "st_rightSideCount (foldl (\<lambda>s j. loop_body env fd dep arr j s) st js) =
     st_rightSideCount st + length (filter (\<lambda>j. viewingSideAt env fd dep arr j = Some right) js)"
  by (induction js arbitrary: st) (simp_all add: loop_body_rightSideCount)

lemma sampled_flightPath:
  "st_flightPath (sampled env fd dep arr) =
     map (pointAt env fd dep arr) (indicesFrom (numIntervals fd) 0)"
  by (simp add: sampled_def loop_foldl foldl_flightPath initialState_def)

lemma sampled_sunEvents:
  "st_sunEvents (sampled env fd dep arr) =
     List.map_filter (eventAt env fd dep arr) (indicesFrom (numIntervals fd) 0)"
  by (simp add: sampled_def loop_foldl foldl_sunEvents initialState_def)

lemma sampled_sunVisibleCount:
  "st_sunVisibleCount (sampled env fd dep arr) =
     length (filter (sunVisible env fd dep arr) (indicesFrom (numIntervals fd) 0))"
  by (simp add: sampled_def loop_foldl foldl_sunVisibleCount initialState_def)

lemma sampled_leftSideCount:
  "st_leftSideCount (sampled env fd dep arr) =
     length (filter (\<lambda>j. viewingSideAt env fd dep arr j = Some left) (indicesFrom (numIntervals fd) 0))"
  by (simp add: sampled_def loop_foldl foldl_leftSideCount initialState_def)

lemma sampled_rightSideCount:
  "st_rightSideCount (sampled env fd dep arr) =
     length (filter (\<lambda>j. viewingSideAt env fd dep arr j = Some right) (indicesFrom (numIntervals fd) 0))"
  by (simp add: sampled_def loop_foldl foldl_rightSideCount initialState_def)

subsection \<open>Deduplication\<close>


lemma findIndex_lower: "- 1 \<le> findIndex P xs"
  by (induction xs) (auto simp: Let_def)

lemma findIndex_eq_iff:
  "findIndex P xs = int i \<longleftrightarrow> i < length xs \<and> P (xs ! i) \<and> (\<forall>k<i. \<not> P (xs ! k))"
proof (induction xs arbitrary: i)
  case Nil
  then show ?case by simp
next
  case (Cons x xs)
  show ?case
  proof (cases "P x")
    case True
    then show ?thesis by (cases i) auto
  next
    case False
    show ?thesis
    proof (cases i)
      case 0
      with False findIndex_lower [of P xs] show ?thesis by (auto simp: Let_def)
    next
      case (Suc j)
      have "findIndex P (x # xs) = int (Suc j) \<longleftrightarrow> findIndex P xs = int j"
        using False by (auto simp: Let_def)
      also have "\<dots> \<longleftrightarrow> j < length xs \<and> P (xs ! j) \<and> (\<forall>k<j. \<not> P (xs ! k))"
        by (rule Cons.IH)
      also have "\<dots> \<longleftrightarrow> Suc j < length (x # xs) \<and> P ((x # xs) ! Suc j) \<and> (\<forall>k<Suc j. \<not> P ((x # xs) ! k))"
        using False by (auto simp: less_Suc_eq_0_disj)
      finally show ?thesis using Suc by simp
    qed
  qed
qed

lemma sameEvent_sym: "sameEvent a b \<longleftrightarrow> sameEvent b a"
proof -
  have "num_lt (Math_abs (num_sub x y)) c \<longleftrightarrow> num_lt (Math_abs (num_sub y x)) c" for x y c
    by (cases x; cases y; cases c) (auto simp: abs_minus_commute)
  then show ?thesis unfolding sameEvent_def by auto
qed

lemma retained_iff:
  "(i, e) \<in> set (retained evs) \<longleftrightarrow>
     i < length evs \<and> evs ! i = e \<and> sameEvent e e \<and> (\<forall>k<i. \<not> sameEvent e (evs ! k))"
proof -
  have "int i = findIndex (sameEvent e) evs \<longleftrightarrow> findIndex (sameEvent e) evs = int i"
    by auto
  then show ?thesis
    unfolding retained_def
    by (auto simp: in_set_enumerate_eq findIndex_eq_iff)
qed

lemma retained_sorted: "sorted_wrt (\<lambda>p q. fst p < fst q) (retained evs)"
proof -
  have "sorted_wrt (\<lambda>p q. fst p < fst q) (enumerate 0 evs)"
    by (simp add: enumerate_eq_zip sorted_wrt_iff_nth_less)
  then show ?thesis
    unfolding retained_def by (rule sorted_wrt_filter)
qed

lemma retained_apart: "sorted_wrt (\<lambda>p q. \<not> sameEvent (snd p) (snd q) \<and> \<not> sameEvent (snd q) (snd p)) (retained evs)"
proof (rule sorted_wrt_mono_rel [OF _ retained_sorted])
  fix p q
  assume p: "p \<in> set (retained evs)" and q: "q \<in> set (retained evs)" and lt: "fst p < fst q"
  obtain i e where pe: "p = (i, e)" by (cases p)
  obtain j f where qf: "q = (j, f)" by (cases q)
  from p pe have e: "evs ! i = e" by (simp add: retained_iff)
  from q qf have "\<forall>k<j. \<not> sameEvent f (evs ! k)" by (simp add: retained_iff)
  with lt pe qf e have "\<not> sameEvent f e" by auto
  then show "\<not> sameEvent (snd p) (snd q) \<and> \<not> sameEvent (snd q) (snd p)"
    using pe qf sameEvent_sym [of e f] by simp
qed

text \<open>
  C4: after deduplication no two retained events are of the same type with times less
  than 10 minutes apart (the test of the code, in either order), and every retained event
  is an event of the raw list that passes the test against itself and stands at the
  first index of the raw list whose event passes the test against it.
\<close>

theorem dedup_no_near_duplicates:
  "(\<forall>a b. a < b \<and> b < length (uniqueEvents evs) \<longrightarrow>
       \<not> sameEvent (uniqueEvents evs ! a) (uniqueEvents evs ! b) \<and>
       \<not> sameEvent (uniqueEvents evs ! b) (uniqueEvents evs ! a)) \<and>
   (\<forall>e \<in> set (uniqueEvents evs). \<exists>i < length evs.
       evs ! i = e \<and> sameEvent e e \<and> (\<forall>k < length evs. sameEvent e (evs ! k) \<longrightarrow> i \<le> k))"
proof (intro conjI allI impI ballI)
  have s: "sorted_wrt (\<lambda>x y. \<not> sameEvent x y \<and> \<not> sameEvent y x) (uniqueEvents evs)"
    unfolding uniqueEvents_def using retained_apart [of evs] by (simp add: sorted_wrt_map)
  fix a b
  assume "a < b \<and> b < length (uniqueEvents evs)"
  with s show "\<not> sameEvent (uniqueEvents evs ! a) (uniqueEvents evs ! b)"
    "\<not> sameEvent (uniqueEvents evs ! b) (uniqueEvents evs ! a)"
    by (auto simp: sorted_wrt_iff_nth_less)
next
  fix e
  assume "e \<in> set (uniqueEvents evs)"
  then obtain i where "(i, e) \<in> set (retained evs)"
    unfolding uniqueEvents_def by auto
  then have i: "i < length evs" "evs ! i = e" "sameEvent e e" "\<forall>k<i. \<not> sameEvent e (evs ! k)"
    by (simp_all add: retained_iff)
  then have "\<forall>k < length evs. sameEvent e (evs ! k) \<longrightarrow> i \<le> k"
    by (meson not_le)
  with i show "\<exists>i < length evs.
       evs ! i = e \<and> sameEvent e e \<and> (\<forall>k < length evs. sameEvent e (evs ! k) \<longrightarrow> i \<le> k)"
    by blast
qed


lemma sameEvent_example:
  "sameEvent (exampleEvent s) (exampleEvent t) \<longleftrightarrow> \<bar>t - s\<bar> < 600000"
proof -
  have "\<bar>real_of_int t - real_of_int s\<bar> < 600000 \<longleftrightarrow> \<bar>t - s\<bar> < 600000"
    by linarith
  then show ?thesis
    by (simp add: sameEvent_def exampleEvent_def)
qed

lemma exampleEvent_inj: "exampleEvent s = exampleEvent t \<longleftrightarrow> s = t"
  by (auto simp: exampleEvent_def)

lemma uniqueEvents_example1:
  "uniqueEvents [exampleEvent 0, exampleEvent 300000, exampleEvent 1200000] =
     [exampleEvent 0, exampleEvent 1200000]"
  by (simp add: uniqueEvents_def retained_def enumerate_eq_zip upt_rec sameEvent_example)

theorem dedup_no_near_duplicates_witness:
  "length (uniqueEvents [exampleEvent 0, exampleEvent 300000, exampleEvent 1200000]) = 2 \<and>
   \<not> sameEvent (exampleEvent 0) (exampleEvent 1200000) \<and>
   sameEvent (exampleEvent 0) (exampleEvent 300000)"
  using dedup_no_near_duplicates [of "[exampleEvent 0, exampleEvent 300000, exampleEvent 1200000]"]
  by (simp add: uniqueEvents_example1 sameEvent_example)

text \<open>
  C10: for the raw list of three sunrise events at 0, 8 and 16 minutes, only the first is
  retained. The third is discarded although it is more than 10 minutes away from the
  only retained event: the first index that passes its test is 1, the index of the
  second event, which is itself discarded because of the first.
\<close>

theorem dedup_discards_far_event:
  "uniqueEvents [exampleEvent 0, exampleEvent 480000, exampleEvent 960000] = [exampleEvent 0] \<and>
   exampleEvent 960000 \<notin> set (uniqueEvents [exampleEvent 0, exampleEvent 480000, exampleEvent 960000]) \<and>
   ev_type (exampleEvent 960000) = ev_type (exampleEvent 0) \<and>
   num_gt (Math_abs (num_sub (getTime (ev_time (exampleEvent 960000))) (getTime (ev_time (exampleEvent 0)))))
     (Num (10 * 60 * 1000)) \<and>
   findIndex (sameEvent (exampleEvent 960000))
     [exampleEvent 0, exampleEvent 480000, exampleEvent 960000] = 1 \<and>
   findIndex (sameEvent (exampleEvent 480000))
     [exampleEvent 0, exampleEvent 480000, exampleEvent 960000] = 0"
  by (simp add: uniqueEvents_def retained_def enumerate_eq_zip upt_rec sameEvent_example
        exampleEvent_inj)
     (simp add: exampleEvent_def)

subsection \<open>The calculation succeeds when both airports are found\<close>

lemma num_lt_abs_sub_Num:
  "num_lt (Math_abs (num_sub x y)) c \<Longrightarrow> \<exists>a. x = Num a"
  by (cases x; cases y; cases c) auto

lemma getTime_Num: "getTime d = Num a \<Longrightarrow> \<exists>t. d = ValidDate t"
  by (cases d) auto

lemma eventAt_time_valid:
  assumes "eventAt env fd dep arr i = Some e"
  shows "\<exists>t. ev_time e = ValidDate t"
proof -
  from assms have near: "isNearSunrise env fd dep arr i \<or> isNearSunset env fd dep arr i"
    and t: "ev_time e = currentTime fd i"
    by (auto simp: eventAt_def split: if_splits)
  from near have "\<exists>a. getTime (currentTime fd i) = Num a"
    unfolding isNearSunrise_def isNearSunset_def by (auto dest: num_lt_abs_sub_Num)
  with t show ?thesis by (auto dest: getTime_Num)
qed

lemma set_uniqueEvents: "set (uniqueEvents evs) \<subseteq> set evs"
  unfolding uniqueEvents_def retained_def
  by (auto simp: in_set_enumerate_eq)

lemma in_set_map_filter:
  "e \<in> set (List.map_filter f xs) \<longleftrightarrow> (\<exists>x \<in> set xs. f x = Some e)"
  by (induction xs) (auto simp: map_filter_simps split: option.splits)

lemma set_sunEvents:
  "e \<in> set (st_sunEvents (sampled env fd dep arr)) \<longleftrightarrow>
     (\<exists>i \<in> set (indicesFrom (numIntervals fd) 0). eventAt env fd dep arr i = Some e)"
  by (simp add: sampled_sunEvents in_set_map_filter)

lemma eventDescriptions_valid:
  "\<forall>e \<in> set evs. \<exists>t. ev_time e = ValidDate t \<Longrightarrow> \<exists>ds. eventDescriptions env evs = Inr ds"
proof (induction evs)
  case Nil
  then show ?case by simp
next
  case (Cons e evs)
  then obtain t ds where "ev_time e = ValidDate t" "eventDescriptions env evs = Inr ds"
    by auto
  then show ?case by (simp add: formatTime_def)
qed

lemma recommend_valid:
  assumes "\<forall>e \<in> set evs. \<exists>t. ev_time e = ValidDate t"
  shows "\<exists>r c d. recommend env evs v l rt = Inr (r, c, d)"
proof -
  from eventDescriptions_valid [OF assms] obtain ds where "eventDescriptions env evs = Inr ds" ..
  then show ?thesis
    by (simp add: recommend_def Let_def)
qed

lemma unique_sampled_valid:
  "\<forall>e \<in> set (uniqueEvents (st_sunEvents (sampled env fd dep arr))). \<exists>t. ev_time e = ValidDate t"
proof
  fix e
  assume "e \<in> set (uniqueEvents (st_sunEvents (sampled env fd dep arr)))"
  with set_uniqueEvents have "e \<in> set (st_sunEvents (sampled env fd dep arr))"
    by blast
  then obtain i where "eventAt env fd dep arr i = Some e"
    by (auto simp: set_sunEvents)
  then show "\<exists>t. ev_time e = ValidDate t"
    by (rule eventAt_time_valid)
qed

text \<open>The shape of the result when both airports are found.\<close>

lemma calculate_found:
  assumes "findAirport (airports env) (departure fd) = Some dep"
    and "findAirport (airports env) (arrival fd) = Some arr"
  obtains r c d where
    "recommend env (uniqueEvents (st_sunEvents (sampled env fd dep arr)))
       (st_sunVisibleCount (sampled env fd dep arr)) (st_leftSideCount (sampled env fd dep arr))
       (st_rightSideCount (sampled env fd dep arr)) = Inr (r, c, d)"
    and "calculate env fd =
       Inr \<lparr>recommendation = r, confidence = c, description = d,
            events = uniqueEvents (st_sunEvents (sampled env fd dep arr)),
            globeData =
              \<lparr>gd_departure = dep, gd_arrival = arr,
               flightPath = st_flightPath (sampled env fd dep arr),
               totalDistance = totalDistanceOf env dep arr,
               totalDuration = durationMinutes fd,
               summary =
                 \<lparr>totalSunriseEvents =
                    length (filter (\<lambda>e. ev_type e = sunrise)
                              (uniqueEvents (st_sunEvents (sampled env fd dep arr)))),
                  totalSunsetEvents =
                    length (filter (\<lambda>e. ev_type e = sunset)
                              (uniqueEvents (st_sunEvents (sampled env fd dep arr)))),
                  averageSunVisibility =
                    (if length (st_flightPath (sampled env fd dep arr)) > 0
                     then num_mul (num_div (Num (real (st_sunVisibleCount (sampled env fd dep arr))))
                                     (Num (real (length (st_flightPath (sampled env fd dep arr))))))
                            (Num 100)
                     else Num 0),
                  bestViewingSide = r\<rparr>\<rparr>\<rparr>"
proof -
  from recommend_valid [OF unique_sampled_valid]
  obtain r c d where
    rec: "recommend env (uniqueEvents (st_sunEvents (sampled env fd dep arr)))
       (st_sunVisibleCount (sampled env fd dep arr)) (st_leftSideCount (sampled env fd dep arr))
       (st_rightSideCount (sampled env fd dep arr)) = Inr (r, c, d)"
    by blast
  show ?thesis
    by (rule that [OF rec]) (simp add: calculate_def assms Let_def rec)
qed

lemma calculate_not_found:
  assumes "findAirport (airports env) (departure fd) = None
           \<or> findAirport (airports env) (arrival fd) = None"
  shows "calculate env fd =
     Inl (Error (''Airport not found: '' @
                  (if findAirport (airports env) (departure fd) = None
                   then departure fd else arrival fd)))"
  using assms by (auto simp: calculate_def split: option.splits)

subsection \<open>The error-shaped result\<close>

text \<open>
  C3: when the departure or the arrival code has no airport record, the try block throws
  "Airport not found" with the departure code if that one is missing, else the arrival
  code; the function itself returns a result: recommendation either, confidence 0, a
  description that ends with the missing code, no events, an empty flight path, distance
  0, and both airports reported under the name Unknown.
\<close>

theorem airport_not_found_result:
  assumes "findAirport (airports env) (departure fd) = None
           \<or> findAirport (airports env) (arrival fd) = None"
  shows "calculateSunPositionForFlight env fd =
     \<lparr>recommendation = either,
      confidence = Num 0,
      description = ''Unable to calculate sun position: Airport not found: '' @
                    (if findAirport (airports env) (departure fd) = None
                     then departure fd else arrival fd),
      events = [],
      globeData =
        \<lparr>gd_departure = \<lparr>iata = departure fd, name = ''Unknown'',
                         latitude = Num 0, longitude = Num 0\<rparr>,
         gd_arrival = \<lparr>iata = arrival fd, name = ''Unknown'',
                       latitude = Num 0, longitude = Num 0\<rparr>,
         flightPath = [],
         totalDistance = Num 0,
         totalDuration = durationMinutes fd,
         summary = \<lparr>totalSunriseEvents = 0, totalSunsetEvents = 0,
                    averageSunVisibility = Num 0, bestViewingSide = either\<rparr>\<rparr>\<rparr>"
  by (simp add: calculateSunPositionForFlight_def calculate_not_found [OF assms] errorResult_def)

subsection \<open>The recommendation\<close>

lemma recommend_events:
  assumes "recommend env evs v l rt = Inr (r, c, d)" and "evs \<noteq> []"
  shows "(length (filter (\<lambda>e. ev_viewingSide e = left) evs)
            > length (filter (\<lambda>e. ev_viewingSide e = right) evs) \<longrightarrow>
          r = rec_left \<and>
          c = Num (min 95 (60 + real (length (filter (\<lambda>e. ev_viewingSide e = left) evs)) * 15))) \<and>
         (length (filter (\<lambda>e. ev_viewingSide e = right) evs)
            > length (filter (\<lambda>e. ev_viewingSide e = left) evs) \<longrightarrow>
          r = rec_right \<and>
          c = Num (min 95 (60 + real (length (filter (\<lambda>e. ev_viewingSide e = right) evs)) * 15))) \<and>
         (length (filter (\<lambda>e. ev_viewingSide e = left) evs)
            = length (filter (\<lambda>e. ev_viewingSide e = right) evs) \<longrightarrow>
          r = either \<and> c = Num 75)"
  using assms
  by (auto simp: recommend_def Let_def split: sum.splits if_splits)

text \<open>The result of the function when both airports are found.\<close>

lemma found_result:
  assumes "findAirport (airports env) (departure fd) = Some dep"
    and "findAirport (airports env) (arrival fd) = Some arr"
  obtains r c d where
      "recommend env (uniqueEvents (st_sunEvents (sampled env fd dep arr)))
         (st_sunVisibleCount (sampled env fd dep arr)) (st_leftSideCount (sampled env fd dep arr))
         (st_rightSideCount (sampled env fd dep arr)) = Inr (r, c, d)"
      "calculate env fd = Inr (calculateSunPositionForFlight env fd)"
      "calculateSunPositionForFlight env fd =
         \<lparr>recommendation = r, confidence = c, description = d,
          events = uniqueEvents (st_sunEvents (sampled env fd dep arr)),
          globeData =
            \<lparr>gd_departure = dep, gd_arrival = arr,
             flightPath = st_flightPath (sampled env fd dep arr),
             totalDistance = totalDistanceOf env dep arr,
             totalDuration = durationMinutes fd,
             summary =
               \<lparr>totalSunriseEvents =
                  length (filter (\<lambda>e. ev_type e = sunrise)
                            (uniqueEvents (st_sunEvents (sampled env fd dep arr)))),
                totalSunsetEvents =
                  length (filter (\<lambda>e. ev_type e = sunset)
                            (uniqueEvents (st_sunEvents (sampled env fd dep arr)))),
                averageSunVisibility =
                  (if length (st_flightPath (sampled env fd dep arr)) > 0
                   then num_mul (num_div (Num (real (st_sunVisibleCount (sampled env fd dep arr))))
                                   (Num (real (length (st_flightPath (sampled env fd dep arr))))))
                          (Num 100)
                   else Num 0),
                bestViewingSide = r\<rparr>\<rparr>\<rparr>"
proof -
  from calculate_found [OF assms] obtain r c d where
    rec: "recommend env (uniqueEvents (st_sunEvents (sampled env fd dep arr)))
         (st_sunVisibleCount (sampled env fd dep arr)) (st_leftSideCount (sampled env fd dep arr))
         (st_rightSideCount (sampled env fd dep arr)) = Inr (r, c, d)"
    and calc: "calculate env fd =
       Inr \<lparr>recommendation = r, confidence = c, description = d,
            events = uniqueEvents (st_sunEvents (sampled env fd dep arr)),
            globeData =
              \<lparr>gd_departure = dep, gd_arrival = arr,
               flightPath = st_flightPath (sampled env fd dep arr),
               totalDistance = totalDistanceOf env dep arr,
               totalDuration = durationMinutes fd,
               summary =
                 \<lparr>totalSunriseEvents =
                    length (filter (\<lambda>e. ev_type e = sunrise)
                              (uniqueEvents (st_sunEvents (sampled env fd dep arr)))),
                  totalSunsetEvents =
                    length (filter (\<lambda>e. ev_type e = sunset)
                              (uniqueEvents (st_sunEvents (sampled env fd dep arr)))),
                  averageSunVisibility =
                    (if length (st_flightPath (sampled env fd dep arr)) > 0
                     then num_mul (num_div (Num (real (st_sunVisibleCount (sampled env fd dep arr))))
                                     (Num (real (length (st_flightPath (sampled env fd dep arr))))))
                            (Num 100)
                     else Num 0),
                  bestViewingSide = r\<rparr>\<rparr>\<rparr>"
    by blast
  show ?thesis
    by (rule that [OF rec]) (simp_all add: calculateSunPositionForFlight_def calc)
qed

text \<open>The two shapes of the result of the function.\<close>

lemma result_cases:
  obtains (failed) msg where
      "calculate env fd = Inl (Error msg)"
      "calculateSunPositionForFlight env fd = errorResult fd (Error msg)"
  | (found) dep arr r c d where
      "findAirport (airports env) (departure fd) = Some dep"
      "findAirport (airports env) (arrival fd) = Some arr"
      "recommend env (uniqueEvents (st_sunEvents (sampled env fd dep arr)))
         (st_sunVisibleCount (sampled env fd dep arr)) (st_leftSideCount (sampled env fd dep arr))
         (st_rightSideCount (sampled env fd dep arr)) = Inr (r, c, d)"
      "calculate env fd = Inr (calculateSunPositionForFlight env fd)"
      "calculateSunPositionForFlight env fd =
         \<lparr>recommendation = r, confidence = c, description = d,
          events = uniqueEvents (st_sunEvents (sampled env fd dep arr)),
          globeData =
            \<lparr>gd_departure = dep, gd_arrival = arr,
             flightPath = st_flightPath (sampled env fd dep arr),
             totalDistance = totalDistanceOf env dep arr,
             totalDuration = durationMinutes fd,
             summary =
               \<lparr>totalSunriseEvents =
                  length (filter (\<lambda>e. ev_type e = sunrise)
                            (uniqueEvents (st_sunEvents (sampled env fd dep arr)))),
                totalSunsetEvents =
                  length (filter (\<lambda>e. ev_type e = sunset)
                            (uniqueEvents (st_sunEvents (sampled env fd dep arr)))),
                averageSunVisibility =
                  (if length (st_flightPath (sampled env fd dep arr)) > 0
                   then num_mul (num_div (Num (real (st_sunVisibleCount (sampled env fd dep arr))))
                                   (Num (real (length (st_flightPath (sampled env fd dep arr))))))
                          (Num 100)
                   else Num 0),
                bestViewingSide = r\<rparr>\<rparr>\<rparr>"
proof (cases "findAirport (airports env) (departure fd) = None
              \<or> findAirport (airports env) (arrival fd) = None")
  case True
  then have c: "calculate env fd = Inl (Error (''Airport not found: '' @
                  (if findAirport (airports env) (departure fd) = None
                   then departure fd else arrival fd)))"
    by (rule calculate_not_found)
  show ?thesis
    by (rule failed [OF c]) (simp add: calculateSunPositionForFlight_def c)
next
  case False
  then obtain dep arr where a: "findAirport (airports env) (departure fd) = Some dep"
    "findAirport (airports env) (arrival fd) = Some arr"
    by auto
  from found_result [OF a] a show ?thesis
    using found by metis
qed

lemma side_counts:
  "length (filter (\<lambda>e. ev_viewingSide e = left) evs)
     + length (filter (\<lambda>e. ev_viewingSide e = right) evs) = length evs"
proof (induction evs)
  case Nil
  show ?case by simp
next
  case (Cons e evs)
  then show ?case by (cases "ev_viewingSide e") simp_all
qed

text \<open>
  C5: let both airports be found and the deduplicated list of the events of the loop be
  not empty. Then the try block returns, the returned events are that list, and the side
  with more events in it is recommended, with confidence min(95, 60 + 15 * its count);
  equal counts give either with confidence 75. Every event is on one of the two sides,
  so the side with more events has the strict majority.
\<close>

theorem recommendation_by_events:
  assumes dep: "findAirport (airports env) (departure fd) = Some dep"
    and arr: "findAirport (airports env) (arrival fd) = Some arr"
    and ne: "uniqueEvents (st_sunEvents (sampled env fd dep arr)) \<noteq> []"
  shows "calculate env fd = Inr (calculateSunPositionForFlight env fd) \<and>
    events (calculateSunPositionForFlight env fd)
      = uniqueEvents (st_sunEvents (sampled env fd dep arr)) \<and>
    (length (filter (\<lambda>e. ev_viewingSide e = left) (uniqueEvents (st_sunEvents (sampled env fd dep arr))))
       > length (filter (\<lambda>e. ev_viewingSide e = right) (uniqueEvents (st_sunEvents (sampled env fd dep arr)))) \<longrightarrow>
     recommendation (calculateSunPositionForFlight env fd) = rec_left \<and>
     confidence (calculateSunPositionForFlight env fd) =
       Num (min 95 (60 + real (length (filter (\<lambda>e. ev_viewingSide e = left)
                                         (uniqueEvents (st_sunEvents (sampled env fd dep arr))))) * 15))) \<and>
    (length (filter (\<lambda>e. ev_viewingSide e = right) (uniqueEvents (st_sunEvents (sampled env fd dep arr))))
       > length (filter (\<lambda>e. ev_viewingSide e = left) (uniqueEvents (st_sunEvents (sampled env fd dep arr)))) \<longrightarrow>
     recommendation (calculateSunPositionForFlight env fd) = rec_right \<and>
     confidence (calculateSunPositionForFlight env fd) =
       Num (min 95 (60 + real (length (filter (\<lambda>e. ev_viewingSide e = right)
                                         (uniqueEvents (st_sunEvents (sampled env fd dep arr))))) * 15))) \<and>
    (length (filter (\<lambda>e. ev_viewingSide e = left) (uniqueEvents (st_sunEvents (sampled env fd dep arr))))
       = length (filter (\<lambda>e. ev_viewingSide e = right) (uniqueEvents (st_sunEvents (sampled env fd dep arr)))) \<longrightarrow>
     recommendation (calculateSunPositionForFlight env fd) = either \<and>
     confidence (calculateSunPositionForFlight env fd) = Num 75) \<and>
    length (filter (\<lambda>e. ev_viewingSide e = left) (uniqueEvents (st_sunEvents (sampled env fd dep arr))))
      + length (filter (\<lambda>e. ev_viewingSide e = right) (uniqueEvents (st_sunEvents (sampled env fd dep arr))))
      = length (uniqueEvents (st_sunEvents (sampled env fd dep arr)))"
proof -
  from found_result [OF dep arr] obtain r c d where
    rec: "recommend env (uniqueEvents (st_sunEvents (sampled env fd dep arr)))
         (st_sunVisibleCount (sampled env fd dep arr)) (st_leftSideCount (sampled env fd dep arr))
         (st_rightSideCount (sampled env fd dep arr)) = Inr (r, c, d)"
    and ok: "calculate env fd = Inr (calculateSunPositionForFlight env fd)"
    and res: "calculateSunPositionForFlight env fd =
         \<lparr>recommendation = r, confidence = c, description = d,
          events = uniqueEvents (st_sunEvents (sampled env fd dep arr)),
          globeData =
            \<lparr>gd_departure = dep, gd_arrival = arr,
             flightPath = st_flightPath (sampled env fd dep arr),
             totalDistance = totalDistanceOf env dep arr,
             totalDuration = durationMinutes fd,
             summary =
               \<lparr>totalSunriseEvents =
                  length (filter (\<lambda>e. ev_type e = sunrise)
                            (uniqueEvents (st_sunEvents (sampled env fd dep arr)))),
                totalSunsetEvents =
                  length (filter (\<lambda>e. ev_type e = sunset)
                            (uniqueEvents (st_sunEvents (sampled env fd dep arr)))),
                averageSunVisibility =
                  (if length (st_flightPath (sampled env fd dep arr)) > 0
                   then num_mul (num_div (Num (real (st_sunVisibleCount (sampled env fd dep arr))))
                                   (Num (real (length (st_flightPath (sampled env fd dep arr))))))
                          (Num 100)
                   else Num 0),
                bestViewingSide = r\<rparr>\<rparr>\<rparr>"
    by blast
  from recommend_events [OF rec ne] side_counts ok show ?thesis
    by (simp add: res)
qed

subsection \<open>Ranges of the result\<close>

lemma recommend_confidence:
  assumes "recommend env evs v l rt = Inr (r, c, d)"
  shows "\<exists>x. c = Num x \<and> 0 \<le> x \<and> x \<le> 100"
proof (cases "evs = []")
  case False
  let ?l = "length (filter (\<lambda>e. ev_viewingSide e = left) evs)"
  let ?r = "length (filter (\<lambda>e. ev_viewingSide e = right) evs)"
  have m: "0 \<le> min 95 (60 + real k * 15)" "min 95 (60 + real k * 15) \<le> 100" for k :: nat
    by (simp_all add: min_def)
  from recommend_events [OF assms False]
  consider "c = Num (min 95 (60 + real ?l * 15))" | "c = Num (min 95 (60 + real ?r * 15))"
    | "c = Num 75"
    by (cases "?l > ?r"; cases "?r > ?l") auto
  then show ?thesis
    using m by cases auto
next
  case True
  have frac: "0 \<le> real a / real b * 30" for a b :: nat
    by simp
  show ?thesis
  proof (cases "v > 0")
    case False
    with True assms show ?thesis by (auto simp: recommend_def)
  next
    case v: True
    have "min 80 (50 + real a / real v * 30) \<le> 100" "0 \<le> min 80 (50 + real a / real v * 30)" for a
      using frac [of a v] by (simp_all add: min_def)
    with True v assms show ?thesis
      by (auto simp: recommend_def split: if_splits)
  qed
qed

lemma sampled_visible_le:
  "st_sunVisibleCount (sampled env fd dep arr) \<le> length (st_flightPath (sampled env fd dep arr))"
  by (simp add: sampled_sunVisibleCount sampled_flightPath)

text \<open>
  C7: the recommendation is left, right or either, the confidence is a number between
  0 and 100, and so is the average sun visibility of the summary. This holds for every
  input, whether the airports are found or not.
\<close>

theorem result_ranges:
  "recommendation (calculateSunPositionForFlight env fd) \<in> {rec_left, rec_right, either} \<and>
   (\<exists>c. confidence (calculateSunPositionForFlight env fd) = Num c \<and> 0 \<le> c \<and> c \<le> 100) \<and>
   (\<exists>v. averageSunVisibility (summary (globeData (calculateSunPositionForFlight env fd))) = Num v
        \<and> 0 \<le> v \<and> v \<le> 100)"
proof (cases rule: result_cases [of env fd])
  case (failed msg)
  have "recommendation (calculateSunPositionForFlight env fd) \<in> {rec_left, rec_right, either}"
    by (cases "recommendation (calculateSunPositionForFlight env fd)") auto
  with failed show ?thesis by (simp add: errorResult_def)
next
  case (found dep arr r c d)
  have 1: "recommendation (calculateSunPositionForFlight env fd) \<in> {rec_left, rec_right, either}"
    by (cases "recommendation (calculateSunPositionForFlight env fd)") auto
  from recommend_confidence [OF found(3)]
  have 2: "\<exists>c. confidence (calculateSunPositionForFlight env fd) = Num c \<and> 0 \<le> c \<and> c \<le> 100"
    by (simp add: found(5))
  have 3: "\<exists>v. averageSunVisibility (summary (globeData (calculateSunPositionForFlight env fd))) = Num v
        \<and> 0 \<le> v \<and> v \<le> 100"
  proof (cases "length (st_flightPath (sampled env fd dep arr)) > 0")
    case False
    then show ?thesis by (simp add: found(5))
  next
    case True
    let ?v = "real (st_sunVisibleCount (sampled env fd dep arr))"
    let ?n = "real (length (st_flightPath (sampled env fd dep arr)))"
    from True have n: "0 < ?n" by simp
    have "?v \<le> ?n" using sampled_visible_le [of env fd dep arr] by simp
    with n have "?v / ?n * 100 \<le> 100" "0 \<le> ?v / ?n * 100"
      by (simp_all add: field_simps)
    with True show ?thesis by (simp add: found(5))
  qed
  from 1 2 3 show ?thesis by blast
qed

subsection \<open>Events and the points they come from\<close>

lemma set_flightPath:
  "set (st_flightPath (sampled env fd dep arr)) =
     pointAt env fd dep arr ` set (indicesFrom (numIntervals fd) 0)"
  by (simp add: sampled_flightPath)

lemma eventAt_point:
  assumes "eventAt env fd dep arr i = Some e"
  shows "num_gt (ev_elevation e) (Num 0)"
    and "time (pointAt env fd dep arr i) = ev_time e"
    and "location (pointAt env fd dep arr i) = ev_location e"
    and "visible (sunPosition (pointAt env fd dep arr i))"
    and "elevation (sunPosition (pointAt env fd dep arr i)) = ev_elevation e"
    and "azimuth (sunPosition (pointAt env fd dep arr i)) = ev_sunAzimuth e"
    and "aircraftBearing (pointAt env fd dep arr i) = ev_aircraftBearing e"
    and "viewingSide (pointAt env fd dep arr i) = Some (ev_viewingSide e)"
  using assms
  by (auto simp: eventAt_def pointAt_def viewingSideAt_def sunVisible_def split: if_splits)

text \<open>
  C9: every event of the result has an elevation strictly above 0, and it was taken at a
  point of the returned flight path where the sun is visible: that point has the time,
  location, elevation, azimuth and bearing of the event, and its viewing side is
  defined and is the side of the event.
\<close>

theorem events_above_horizon:
  "\<forall>e \<in> set (events (calculateSunPositionForFlight env fd)).
     num_gt (ev_elevation e) (Num 0) \<and>
     (\<exists>p \<in> set (flightPath (globeData (calculateSunPositionForFlight env fd))).
        visible (sunPosition p) \<and>
        viewingSide p = Some (ev_viewingSide e) \<and>
        elevation (sunPosition p) = ev_elevation e \<and>
        time p = ev_time e \<and> location p = ev_location e \<and>
        azimuth (sunPosition p) = ev_sunAzimuth e \<and>
        aircraftBearing p = ev_aircraftBearing e)"
proof (cases rule: result_cases [of env fd])
  case (failed msg)
  then show ?thesis by (simp add: errorResult_def)
next
  case (found dep arr r c d)
  show ?thesis
  proof
    fix e
    assume "e \<in> set (events (calculateSunPositionForFlight env fd))"
    then have "e \<in> set (uniqueEvents (st_sunEvents (sampled env fd dep arr)))"
      by (simp add: found(5))
    with set_uniqueEvents have "e \<in> set (st_sunEvents (sampled env fd dep arr))"
      by blast
    then obtain i where i: "i \<in> set (indicesFrom (numIntervals fd) 0)"
      and e: "eventAt env fd dep arr i = Some e"
      by (auto simp: set_sunEvents)
    from i have p: "pointAt env fd dep arr i
        \<in> set (flightPath (globeData (calculateSunPositionForFlight env fd)))"
      by (simp add: found(5) set_flightPath)
    from eventAt_point [OF e] p
    show "num_gt (ev_elevation e) (Num 0) \<and>
     (\<exists>p \<in> set (flightPath (globeData (calculateSunPositionForFlight env fd))).
        visible (sunPosition p) \<and>
        viewingSide p = Some (ev_viewingSide e) \<and>
        elevation (sunPosition p) = ev_elevation e \<and>
        time p = ev_time e \<and> location p = ev_location e \<and>
        azimuth (sunPosition p) = ev_sunAzimuth e \<and>
        aircraftBearing p = ev_aircraftBearing e)"
      by blast
  qed
qed

subsection \<open>Missing sunrise and sunset\<close>

lemma not_near_invalid:
  "\<not> num_lt (Math_abs (num_sub x (getTime InvalidDate))) c"
  by (cases x) auto

lemma eventAt_type:
  assumes "eventAt env fd dep arr i = Some e"
  shows "(ev_type e = sunrise \<longrightarrow> sc_sunrise (sunTimesAt env fd dep arr i) \<noteq> InvalidDate) \<and>
         (ev_type e = sunset \<longrightarrow> sc_sunset (sunTimesAt env fd dep arr i) \<noteq> InvalidDate)"
proof -
  from assms consider
    (rise) "isNearSunrise env fd dep arr i" "ev_type e = sunrise"
  | (set) "\<not> isNearSunrise env fd dep arr i" "isNearSunset env fd dep arr i" "ev_type e = sunset"
    by (auto simp: eventAt_def split: if_splits)
  then show ?thesis
  proof cases
    case rise
    then show ?thesis
      using not_near_invalid by (auto simp: isNearSunrise_def)
  next
    case set
    then show ?thesis
      using not_near_invalid by (auto simp: isNearSunset_def)
  qed
qed

lemma eventAt_none_invalid:
  assumes "sc_sunrise (sunTimesAt env fd dep arr i) = InvalidDate"
    and "sc_sunset (sunTimesAt env fd dep arr i) = InvalidDate"
  shows "eventAt env fd dep arr i = None"
  using assms not_near_invalid
  by (simp add: eventAt_def isNearSunrise_def isNearSunset_def)

text \<open>
  C6: with both airports found the try block does not throw. A pass of the loop body at
  a sample whose sunrise and sunset are both Invalid Dates pushes no event. Every event
  of the result was pushed at a sample of the flight; if it is a sunrise event, the
  sunrise of that sample is not an Invalid Date, and if it is a sunset event, the sunset
  of that sample is not an Invalid Date.
\<close>

theorem missing_sun_times_no_event:
  assumes "findAirport (airports env) (departure fd) = Some dep"
    and "findAirport (airports env) (arrival fd) = Some arr"
  shows "calculate env fd = Inr (calculateSunPositionForFlight env fd) \<and>
    (\<forall>i st. sc_sunrise (sunTimesAt env fd dep arr i) = InvalidDate \<and>
            sc_sunset (sunTimesAt env fd dep arr i) = InvalidDate \<longrightarrow>
            st_sunEvents (loop_body env fd dep arr i st) = st_sunEvents st) \<and>
    (\<forall>e \<in> set (events (calculateSunPositionForFlight env fd)).
       \<exists>i \<in> set (indicesFrom (numIntervals fd) 0).
         eventAt env fd dep arr i = Some e \<and>
         (ev_type e = sunrise \<longrightarrow> sc_sunrise (sunTimesAt env fd dep arr i) \<noteq> InvalidDate) \<and>
         (ev_type e = sunset \<longrightarrow> sc_sunset (sunTimesAt env fd dep arr i) \<noteq> InvalidDate))"
proof -
  from found_result [OF assms] obtain r c d where
    a: "calculate env fd = Inr (calculateSunPositionForFlight env fd)"
    and res: "events (calculateSunPositionForFlight env fd)
               = uniqueEvents (st_sunEvents (sampled env fd dep arr))"
    by (metis FlightRecommendation.select_convs(4))
  have b: "st_sunEvents (loop_body env fd dep arr i st) = st_sunEvents st"
    if "sc_sunrise (sunTimesAt env fd dep arr i) = InvalidDate \<and>
        sc_sunset (sunTimesAt env fd dep arr i) = InvalidDate" for i st
    using that by (simp add: loop_body_sunEvents eventAt_none_invalid)
  have c: "\<exists>i \<in> set (indicesFrom (numIntervals fd) 0).
         eventAt env fd dep arr i = Some e \<and>
         (ev_type e = sunrise \<longrightarrow> sc_sunrise (sunTimesAt env fd dep arr i) \<noteq> InvalidDate) \<and>
         (ev_type e = sunset \<longrightarrow> sc_sunset (sunTimesAt env fd dep arr i) \<noteq> InvalidDate)"
    if "e \<in> set (events (calculateSunPositionForFlight env fd))" for e
  proof -
    from that have "e \<in> set (uniqueEvents (st_sunEvents (sampled env fd dep arr)))"
      by (simp add: res)
    with set_uniqueEvents have "e \<in> set (st_sunEvents (sampled env fd dep arr))"
      by blast
    then obtain i where i: "i \<in> set (indicesFrom (numIntervals fd) 0)"
      and e: "eventAt env fd dep arr i = Some e"
      by (auto simp: set_sunEvents)
    from eventAt_type [OF e] i e show ?thesis by blast
  qed
  from a b c show ?thesis by blast
qed

subsection \<open>Equal departure and arrival\<close>




subsection \<open>The samples of a flight\<close>

lemma trunc_of_int: "trunc (of_int k) = k"
  by (simp add: trunc_def)

lemma numIntervals_Num:
  assumes "durationMinutes fd = Num x"
  shows "numIntervals fd = Num (of_int \<lceil>x / 5\<rceil>)"
  using assms by (simp add: numIntervals_def intervalMinutes_def)

lemma indices_Num:
  assumes "durationMinutes fd = Num x"
  shows "indicesFrom (numIntervals fd) 0 = [0..\<lceil>x / 5\<rceil>]"
  by (simp add: numIntervals_Num [OF assms] indicesFrom_def)

lemma timeOffset_Num:
  assumes "durationMinutes fd = Num x"
  shows "timeOffsetMinutes fd i = Num (min (of_int i * 5) x)"
  using assms by (simp add: timeOffsetMinutes_def intervalMinutes_def)

lemma progress_Num:
  assumes "durationMinutes fd = Num x" and "x \<noteq> 0"
  shows "progressAt fd i = Num (min (of_int i * 5) x / x)"
  using assms by (simp add: progressAt_def timeOffset_Num [OF assms(1)])

text \<open>The offset of a sample in milliseconds, when the duration is \<open>m\<close> milliseconds.\<close>

lemma offset_ms:
  assumes "x * 60000 = real_of_int m"
  shows "min (real_of_int i * 5) x * 60 * 1000 = real_of_int (min (i * 300000) m)"
proof -
  have "min (real_of_int i * 5) x * 60 * 1000 = min (real_of_int i * 5 * 60000) (x * 60000)"
    by (simp add: min_def)
  also have "\<dots> = min (real_of_int (i * 300000)) (real_of_int m)"
    using assms by simp
  also have "\<dots> = real_of_int (min (i * 300000) m)"
    by (simp add: of_int_min)
  finally show ?thesis .
qed

lemma currentTime_ms:
  assumes d: "durationMinutes fd = Num x" and ms: "x * 60000 = real_of_int m" and m: "0 \<le> m"
    and t: "departureTime fd = ValidDate t0"
    and lo: "- 8640000000000000 \<le> t0" and hi: "t0 + m \<le> 8640000000000000"
    and i: "0 \<le> i"
  shows "currentTime fd i = ValidDate (t0 + min (i * 300000) m)"
proof -
  let ?k = "min (i * 300000) m"
  have k: "0 \<le> ?k" "?k \<le> m" using i m by simp_all
  have eq: "real_of_int t0 + min (real_of_int i * 5) x * 60 * 1000 = real_of_int (t0 + ?k)"
    by (simp add: offset_ms [OF ms])
  have "\<bar>t0 + ?k\<bar> \<le> 8640000000000000"
    using k lo hi by linarith
  then have "\<not> \<bar>real_of_int (t0 + ?k)\<bar> > 8640000000000000"
    by linarith
  then show ?thesis
    unfolding currentTime_def timeOffset_Num [OF d] t getTime.simps num_mul.simps num_add.simps eq
      new_Date.simps trunc_of_int
    by simp
qed

lemma offsets_increase:
  assumes "i < j" and "j \<le> \<lceil>x / 5\<rceil>"
  shows "min (real_of_int i * 5) x < min (real_of_int j * 5) x"
proof -
  from assms have "i < \<lceil>x / 5\<rceil>" by simp
  then have "real_of_int i < x / 5" by (simp add: less_ceiling_iff)
  then have "real_of_int i * 5 < x" by linarith
  moreover from assms(1) have "real_of_int i * 5 < real_of_int j * 5" by simp
  ultimately show ?thesis by simp
qed

lemma ms_increase:
  assumes "x * 60000 = real_of_int m" and "i < j" and "j \<le> \<lceil>x / 5\<rceil>"
  shows "min (i * 300000) m < min (j * 300000) m"
proof -
  from offsets_increase [OF assms(2,3)]
  have "min (real_of_int i * 5) x * 60 * 1000 < min (real_of_int j * 5) x * 60 * 1000"
    by simp
  then have "real_of_int (min (i * 300000) m) < real_of_int (min (j * 300000) m)"
    by (simp only: offset_ms [OF assms(1)])
  then show ?thesis by linarith
qed

lemma offset_last: "min (real_of_int \<lceil>x / 5\<rceil> * 5) x = x"
proof -
  have "x / 5 \<le> real_of_int \<lceil>x / 5\<rceil>" by (rule le_of_int_ceiling)
  then have "x \<le> real_of_int \<lceil>x / 5\<rceil> * 5" by linarith
  then show ?thesis by simp
qed

lemma ms_last:
  assumes "x * 60000 = real_of_int m"
  shows "min (\<lceil>x / 5\<rceil> * 300000) m = m"
proof -
  have "real_of_int (min (\<lceil>x / 5\<rceil> * 300000) m) = min (real_of_int \<lceil>x / 5\<rceil> * 5) x * 60 * 1000"
    by (simp only: offset_ms [OF assms])
  also have "\<dots> = x * 60 * 1000" by (simp only: offset_last)
  also have "\<dots> = real_of_int m" using assms by simp
  finally show ?thesis by linarith
qed

lemma intervals_positive:
  assumes "0 < x"
  shows "0 < \<lceil>x / 5\<rceil>"
  using assms by (simp add: less_ceiling_iff)

text \<open>
  C2: let both airports be found and the duration be \<open>x > 0\<close> minutes. Then
  the flight path has ceil(x / 5) + 1 points; point \<open>i\<close> has progress min(5 i, x) / x
  and the time \<open>new Date\<close> makes of departure + min(5 i, x) minutes; the first point has
  progress 0, the last has progress 1, and progress strictly increases along the path.
  If moreover the duration is a whole number \<open>m\<close> of milliseconds and the departure and
  the arrival are instants a \<open>Date\<close> can hold, then point \<open>i\<close> has time departure +
  min(5 i, x) minutes, the first point has the departure time, the last has time
  departure + x minutes, and time strictly increases along the path.
\<close>

theorem flight_path_samples:
  assumes dep: "findAirport (airports env) (departure fd) = Some dep"
    and arr: "findAirport (airports env) (arrival fd) = Some arr"
    and d: "durationMinutes fd = Num x" and x: "0 < x"
  shows "length (flightPath (globeData (calculateSunPositionForFlight env fd)))
           = nat \<lceil>x / 5\<rceil> + 1 \<and>
    progress (hd (flightPath (globeData (calculateSunPositionForFlight env fd)))) = Num 0 \<and>
    progress (last (flightPath (globeData (calculateSunPositionForFlight env fd)))) = Num 1 \<and>
    (\<forall>i < length (flightPath (globeData (calculateSunPositionForFlight env fd))).
       progress (flightPath (globeData (calculateSunPositionForFlight env fd)) ! i)
         = Num (min (real i * 5) x / x) \<and>
       time (flightPath (globeData (calculateSunPositionForFlight env fd)) ! i)
         = new_Date (num_add (getTime (departureTime fd)) (Num (min (real i * 5) x * 60000)))) \<and>
    sorted_wrt (\<lambda>p q. num_lt (progress p) (progress q))
      (flightPath (globeData (calculateSunPositionForFlight env fd))) \<and>
    (\<forall>m t0. x * 60000 = real_of_int m \<and> departureTime fd = ValidDate t0 \<and>
            - 8640000000000000 \<le> t0 \<and> t0 + m \<le> 8640000000000000 \<longrightarrow>
       time (hd (flightPath (globeData (calculateSunPositionForFlight env fd))))
         = departureTime fd \<and>
       time (last (flightPath (globeData (calculateSunPositionForFlight env fd))))
         = ValidDate (t0 + m) \<and>
       (\<forall>i < length (flightPath (globeData (calculateSunPositionForFlight env fd))).
          time (flightPath (globeData (calculateSunPositionForFlight env fd)) ! i)
            = ValidDate (t0 + min (int i * 300000) m)) \<and>
       sorted_wrt (\<lambda>p q. num_lt (getTime (time p)) (getTime (time q)))
         (flightPath (globeData (calculateSunPositionForFlight env fd))))"
proof -
  let ?N = "\<lceil>x / 5\<rceil>"
  let ?path = "flightPath (globeData (calculateSunPositionForFlight env fd))"
  from found_result [OF dep arr] obtain r c ds where
    "globeData (calculateSunPositionForFlight env fd) =
            \<lparr>gd_departure = dep, gd_arrival = arr,
             flightPath = st_flightPath (sampled env fd dep arr),
             totalDistance = totalDistanceOf env dep arr,
             totalDuration = durationMinutes fd,
             summary =
               \<lparr>totalSunriseEvents =
                  length (filter (\<lambda>e. ev_type e = sunrise)
                            (uniqueEvents (st_sunEvents (sampled env fd dep arr)))),
                totalSunsetEvents =
                  length (filter (\<lambda>e. ev_type e = sunset)
                            (uniqueEvents (st_sunEvents (sampled env fd dep arr)))),
                averageSunVisibility =
                  (if length (st_flightPath (sampled env fd dep arr)) > 0
                   then num_mul (num_div (Num (real (st_sunVisibleCount (sampled env fd dep arr))))
                                   (Num (real (length (st_flightPath (sampled env fd dep arr))))))
                          (Num 100)
                   else Num 0),
                bestViewingSide = r\<rparr>\<rparr>"
    by (metis FlightRecommendation.select_convs(5))
  then have path: "?path = map (pointAt env fd dep arr) [0..?N]"
    by (simp add: sampled_flightPath indices_Num [OF d])
  have N: "0 < ?N" by (rule intervals_positive [OF x])
  have len0: "length ?path = nat (?N + 1)"
    by (simp add: path)
  have "nat (?N + 1) = nat ?N + 1"
    using N by linarith
  with len0 have len: "length ?path = nat ?N + 1"
    by simp
  have nth: "?path ! i = pointAt env fd dep arr (int i)" if "i < length ?path" for i
  proof -
    from that have "0 + int i \<le> ?N" unfolding len0 by linarith
    then have "[0..?N] ! i = 0 + int i" by (rule nth_upto)
    with that show ?thesis by (simp add: path)
  qed
  from x have x0: "x \<noteq> 0" by simp
  have pr: "progress (pointAt env fd dep arr i) = Num (min (real_of_int i * 5) x / x)" for i
    using progress_Num [OF d x0] by (simp add: pointAt_def)
  have tg: "time (pointAt env fd dep arr i)
      = new_Date (num_add (getTime (departureTime fd)) (Num (min (real_of_int i * 5) x * 60000)))"
    for i
  proof -
    have "min (real_of_int i * 5) x * 60 * 1000 = min (real_of_int i * 5) x * 60000"
      by simp
    then show ?thesis
      by (simp only: pointAt_def currentTime_def timeOffset_Num [OF d] num_mul.simps
            FlightPathPoint.select_convs)
  qed
  have ne: "?path \<noteq> []" using len by auto
  have hd: "hd ?path = pointAt env fd dep arr 0"
    using nth [of 0] len by (simp add: hd_conv_nth [OF ne])
  have "last ?path = ?path ! (length ?path - 1)"
    by (rule last_conv_nth [OF ne])
  also have "\<dots> = pointAt env fd dep arr (int (nat ?N))"
    using nth [of "nat ?N"] len by simp
  also have "int (nat ?N) = ?N"
    using N by linarith
  finally have last: "last ?path = pointAt env fd dep arr ?N" .
  have N0: "0 \<le> ?N" using N by linarith
  have 1: "progress (hd ?path) = Num 0" using x by (simp add: hd pr)
  have 2: "progress (last ?path) = Num 1" using x0 by (simp add: last pr offset_last)
  have 3: "\<forall>i < length ?path.
       progress (?path ! i) = Num (min (real i * 5) x / x) \<and>
       time (?path ! i)
         = new_Date (num_add (getTime (departureTime fd)) (Num (min (real i * 5) x * 60000)))"
    by (simp add: nth pr tg)
  have 4: "sorted_wrt (\<lambda>p q. num_lt (progress p) (progress q)) ?path"
    unfolding sorted_wrt_iff_nth_less
  proof (intro allI impI)
    fix i j
    assume ij: "i < j" and j: "j < length ?path"
    then have i: "i < length ?path" by simp
    from j len N have jN: "int j \<le> ?N" by linarith
    from ij have ij': "int i < int j" by simp
    from offsets_increase [OF ij' jN]
    have "min (real_of_int (int i) * 5) x / x < min (real_of_int (int j) * 5) x / x"
      using x by (simp only: divide_strict_right_mono)
    then show "num_lt (progress (?path ! i)) (progress (?path ! j))"
      by (simp add: nth [OF i] nth [OF j] pr)
  qed
  have 5: "time (hd ?path) = departureTime fd \<and>
       time (last ?path) = ValidDate (t0 + m) \<and>
       (\<forall>i < length ?path. time (?path ! i) = ValidDate (t0 + min (int i * 300000) m)) \<and>
       sorted_wrt (\<lambda>p q. num_lt (getTime (time p)) (getTime (time q))) ?path"
    if h: "x * 60000 = real_of_int m \<and> departureTime fd = ValidDate t0 \<and>
            - 8640000000000000 \<le> t0 \<and> t0 + m \<le> 8640000000000000" for m t0
  proof -
    from h have ms: "x * 60000 = real_of_int m" and t: "departureTime fd = ValidDate t0"
      and lo: "- 8640000000000000 \<le> t0" and hi: "t0 + m \<le> 8640000000000000"
      by simp_all
    from x ms have m: "0 < m"
      by (smt (verit) of_int_0_less_iff zero_less_mult_iff)
    then have m0: "0 \<le> m" by simp
    have tm: "time (pointAt env fd dep arr i) = ValidDate (t0 + min (i * 300000) m)"
      if "0 \<le> i" for i
      using currentTime_ms [OF d ms m0 t lo hi that] by (simp add: pointAt_def)
    have a: "time (hd ?path) = departureTime fd" using m0 by (simp add: hd tm t)
    from tm [OF N0] have b: "time (last ?path) = ValidDate (t0 + m)"
      by (simp only: last ms_last [OF ms])
    have c: "\<forall>i < length ?path. time (?path ! i) = ValidDate (t0 + min (int i * 300000) m)"
      by (simp add: nth tm)
    have e: "sorted_wrt (\<lambda>p q. num_lt (getTime (time p)) (getTime (time q))) ?path"
      unfolding sorted_wrt_iff_nth_less
    proof (intro allI impI)
      fix i j
      assume ij: "i < j" and j: "j < length ?path"
      then have i: "i < length ?path" by simp
      from j len N have jN: "int j \<le> ?N" by linarith
      from ij have ij': "int i < int j" by simp
      from ms_increase [OF ms ij' jN]
      show "num_lt (getTime (time (?path ! i))) (getTime (time (?path ! j)))"
        by (simp add: nth [OF i] nth [OF j] tm)
    qed
    from a b c e show ?thesis by blast
  qed
  from len 1 2 3 4 5 show ?thesis by blast
qed

subsection \<open>The viewing side\<close>

lemma normalize360_range: "0 \<le> normalize360 x \<and> normalize360 x < 360"
proof -
  have "real_of_int \<lfloor>x / 360\<rfloor> \<le> x / 360" "x / 360 < real_of_int \<lfloor>x / 360\<rfloor> + 1"
    by linarith+
  then show ?thesis
    unfolding normalize360_def by (simp add: field_simps)
qed

lemma normalize360_small: "0 \<le> x \<Longrightarrow> x < 360 \<Longrightarrow> normalize360 x = x"
proof -
  assume "0 \<le> x" "x < 360"
  then have "\<lfloor>x / 360\<rfloor> = 0" by (simp add: floor_eq_iff)
  then show ?thesis by (simp add: normalize360_def)
qed

lemma normalize360_negative: "- 360 \<le> x \<Longrightarrow> x < 0 \<Longrightarrow> normalize360 x = x + 360"
proof -
  assume "- 360 \<le> x" "x < 0"
  then have "\<lfloor>x / 360\<rfloor> = - 1" by (simp add: floor_eq_iff)
  then show ?thesis by (simp add: normalize360_def)
qed

lemma azimuthDiff_normalize:
  assumes "0 \<le> az" "az < 360" "0 \<le> b" "b < 360"
  shows "azimuthDiff (Num az) (Num b) = Num (normalize360 (az - b))"
proof (cases "az - b < 0")
  case True
  with assms have "normalize360 (az - b) = az - b + 360"
    by (intro normalize360_negative) simp_all
  with True assms show ?thesis
    by (simp add: azimuthDiff_def)
next
  case False
  with assms have "normalize360 (az - b) = az - b"
    by (intro normalize360_small) simp_all
  with False assms show ?thesis
    by (simp add: azimuthDiff_def)
qed

lemma degrees_range:
  assumes "- pi \<le> a" "a \<le> pi"
  shows "\<exists>az. num_rem (num_add (num_div (num_mul (Num a) (Num 180)) (Num pi)) (Num 180)) (Num 360)
              = Num az \<and> 0 \<le> az \<and> az < 360"
proof -
  let ?x = "a * 180 / pi + 180"
  have "- 180 \<le> a * 180 / pi" "a * 180 / pi \<le> 180"
    using assms pi_gt_zero by (simp_all add: field_simps)
  then have x: "0 \<le> ?x" "?x \<le> 360" by simp_all
  then have q: "0 \<le> ?x / 360" by simp
  have rem: "num_rem (num_add (num_div (num_mul (Num a) (Num 180)) (Num pi)) (Num 180)) (Num 360)
       = Num (?x - 360 * of_int \<lfloor>?x / 360\<rfloor>)"
    using q by (simp add: trunc_def)
  show ?thesis
  proof (cases "?x = 360")
    case True
    then have "?x - 360 * of_int \<lfloor>?x / 360\<rfloor> = 0" by simp
    with rem show ?thesis by simp
  next
    case False
    with x have "?x < 360" by simp
    with x have "\<lfloor>?x / 360\<rfloor> = 0" by (simp add: floor_eq_iff)
    then have "?x - 360 * of_int \<lfloor>?x / 360\<rfloor> = ?x" by simp
    with rem x \<open>?x < 360\<close> show ?thesis by simp
  qed
qed

lemma elevation_positive:
  assumes "num_gt (num_div (num_mul alt (Num 180)) (Num pi)) (Num 0)"
  shows "num_gt alt (Num 0)"
proof (cases alt)
  case NaN
  with assms show ?thesis by simp
next
  case (Num x)
  with assms have "0 < x * 180 / pi" by simp
  then have "0 < x" using pi_gt_zero by (simp add: zero_less_divide_iff zero_less_mult_iff)
  with Num show ?thesis by simp
qed

lemma sideOf_Num:
  "sideOf (Num x) = (if 0 < x \<and> x < 180 then right else left)"
  by (simp add: sideOf_def)

text \<open>
  C1: let the bearing of the flight be a number \<open>b\<close> in [0, 360) and let \<open>suncalc\<close>
  return an azimuth between \<open>-\<pi>\<close> and \<open>\<pi>\<close> whenever it returns a positive altitude.
  Then at every point of the flight path whose elevation is above 0, the difference the
  code computes is (azimuth - bearing) normalised into [0, 360), and the viewing side is
  right when that difference lies strictly between 0 and 180, left otherwise; a point
  whose elevation is not above 0 has no viewing side.
\<close>

theorem viewing_side_classification:
  assumes dep: "findAirport (airports env) (departure fd) = Some dep"
    and arr: "findAirport (airports env) (arrival fd) = Some arr"
    and bearing: "getRhumbLineBearing env (coordsOf dep) (coordsOf arr) = Num b"
      "0 \<le> b" "b < 360"
    and suncalc: "\<forall>t la lo. num_gt (sc_altitude (getPosition env t la lo)) (Num 0) \<longrightarrow>
       (\<exists>a. sc_azimuth (getPosition env t la lo) = Num a \<and> - pi \<le> a \<and> a \<le> pi)"
  shows "\<forall>p \<in> set (flightPath (globeData (calculateSunPositionForFlight env fd))).
    aircraftBearing p = Num b \<and>
    visible (sunPosition p) = num_gt (elevation (sunPosition p)) (Num 0) \<and>
    (num_gt (elevation (sunPosition p)) (Num 0) \<longrightarrow>
       (\<exists>az. azimuth (sunPosition p) = Num az \<and>
             azimuthDiff (azimuth (sunPosition p)) (aircraftBearing p)
               = Num (normalize360 (az - b)) \<and>
             viewingSide p =
               Some (if 0 < normalize360 (az - b) \<and> normalize360 (az - b) < 180
                     then right else left))) \<and>
    (\<not> num_gt (elevation (sunPosition p)) (Num 0) \<longrightarrow> viewingSide p = None)"
proof
  fix p
  assume "p \<in> set (flightPath (globeData (calculateSunPositionForFlight env fd)))"
  moreover from found_result [OF dep arr] obtain r c ds where
    "globeData (calculateSunPositionForFlight env fd) =
            \<lparr>gd_departure = dep, gd_arrival = arr,
             flightPath = st_flightPath (sampled env fd dep arr),
             totalDistance = totalDistanceOf env dep arr,
             totalDuration = durationMinutes fd,
             summary =
               \<lparr>totalSunriseEvents =
                  length (filter (\<lambda>e. ev_type e = sunrise)
                            (uniqueEvents (st_sunEvents (sampled env fd dep arr)))),
                totalSunsetEvents =
                  length (filter (\<lambda>e. ev_type e = sunset)
                            (uniqueEvents (st_sunEvents (sampled env fd dep arr)))),
                averageSunVisibility =
                  (if length (st_flightPath (sampled env fd dep arr)) > 0
                   then num_mul (num_div (Num (real (st_sunVisibleCount (sampled env fd dep arr))))
                                   (Num (real (length (st_flightPath (sampled env fd dep arr))))))
                          (Num 100)
                   else Num 0),
                bestViewingSide = r\<rparr>\<rparr>"
    by (metis FlightRecommendation.select_convs(5))
  ultimately obtain i where p: "p = pointAt env fd dep arr i"
    by (auto simp: set_flightPath)
  have fb: "flightBearing env dep arr = Num b"
    using bearing(1) by (simp add: flightBearing_def)
  have 1: "aircraftBearing p = Num b"
    by (simp add: p pointAt_def fb)
  have 2: "visible (sunPosition p) = num_gt (elevation (sunPosition p)) (Num 0)"
    by (simp add: p pointAt_def sunVisible_def)
  have 3: "\<exists>az. azimuth (sunPosition p) = Num az \<and>
             azimuthDiff (azimuth (sunPosition p)) (aircraftBearing p)
               = Num (normalize360 (az - b)) \<and>
             viewingSide p =
               Some (if 0 < normalize360 (az - b) \<and> normalize360 (az - b) < 180
                     then right else left)"
    if up: "num_gt (elevation (sunPosition p)) (Num 0)"
  proof -
    from up have vis: "sunVisible env fd dep arr i"
      by (simp add: p pointAt_def sunVisible_def)
    then have "num_gt (sc_altitude (sunPositionAt env fd dep arr i)) (Num 0)"
      unfolding sunVisible_def sunElevationDegrees_def by (rule elevation_positive)
    with suncalc obtain a where a: "sc_azimuth (sunPositionAt env fd dep arr i) = Num a"
      "- pi \<le> a" "a \<le> pi"
      unfolding sunPositionAt_def by blast
    from degrees_range [OF a(2,3)] obtain az where
      az: "sunAzimuthDegrees env fd dep arr i = Num az" "0 \<le> az" "az < 360"
      unfolding sunAzimuthDegrees_def a(1) by blast
    have diff: "azimuthDiff (Num az) (Num b) = Num (normalize360 (az - b))"
      by (rule azimuthDiff_normalize [OF az(2,3) bearing(2,3)])
    have "azimuth (sunPosition p) = Num az"
      by (simp add: p pointAt_def az(1))
    moreover have "viewingSide p =
               Some (if 0 < normalize360 (az - b) \<and> normalize360 (az - b) < 180
                     then right else left)"
      using vis by (simp add: p pointAt_def viewingSideAt_def az(1) fb diff sideOf_Num)
    ultimately show ?thesis
      using diff 1 by simp
  qed
  have 4: "viewingSide p = None" if "\<not> num_gt (elevation (sunPosition p)) (Num 0)"
    using that by (simp add: p pointAt_def viewingSideAt_def sunVisible_def)
  from 1 2 3 4
  show "aircraftBearing p = Num b \<and>
    visible (sunPosition p) = num_gt (elevation (sunPosition p)) (Num 0) \<and>
    (num_gt (elevation (sunPosition p)) (Num 0) \<longrightarrow>
       (\<exists>az. azimuth (sunPosition p) = Num az \<and>
             azimuthDiff (azimuth (sunPosition p)) (aircraftBearing p)
               = Num (normalize360 (az - b)) \<and>
             viewingSide p =
               Some (if 0 < normalize360 (az - b) \<and> normalize360 (az - b) < 180
                     then right else left))) \<and>
    (\<not> num_gt (elevation (sunPosition p)) (Num 0) \<longrightarrow> viewingSide p = None)"
    by blast
qed

subsection \<open>The example flight\<close>

lemma example_departure:
  "findAirport (airports exampleEnv) (departure exampleFlight) = Some JFK"
  by (simp add: findAirport_def exampleEnv_def exampleFlight_def exampleAirports_def JFK_def LHR_def)

lemma example_arrival:
  "findAirport (airports exampleEnv) (arrival exampleFlight) = Some LHR"
  by (simp add: findAirport_def exampleEnv_def exampleFlight_def exampleAirports_def JFK_def LHR_def)

lemma example_indices: "indicesFrom (numIntervals exampleFlight) 0 = [0, 1, 2, 3]"
proof -
  have "\<lceil>12 / 5 :: real\<rceil> = 3" by (simp add: ceiling_eq_iff)
  then have "numIntervals exampleFlight = Num 3"
    by (simp add: numIntervals_def exampleFlight_def intervalMinutes_def)
  then show ?thesis
    by (simp add: indicesFrom_def upto_rec1)
qed

lemma example_currentTime:
  "currentTime exampleFlight 0 = ValidDate 0"
  "currentTime exampleFlight 1 = ValidDate 300000"
  "currentTime exampleFlight 2 = ValidDate 600000"
  "currentTime exampleFlight 3 = ValidDate 720000"
  by (simp_all add: currentTime_def timeOffsetMinutes_def exampleFlight_def intervalMinutes_def
        trunc_def)

lemma example_sunVisible:
  "sunVisible exampleEnv exampleFlight dep arr 0"
  "sunVisible exampleEnv exampleFlight dep arr 1"
  "\<not> sunVisible exampleEnv exampleFlight dep arr 2"
  "\<not> sunVisible exampleEnv exampleFlight dep arr 3"
  by (simp_all add: sunVisible_def sunElevationDegrees_def sunPositionAt_def example_currentTime
        exampleEnv_def)

lemma example_elevation:
  "sunElevationDegrees exampleEnv exampleFlight dep arr 0 = Num (18 / pi)"
  "sunElevationDegrees exampleEnv exampleFlight dep arr 1 = Num (18 / pi)"
  by (simp_all add: sunElevationDegrees_def sunPositionAt_def example_currentTime exampleEnv_def)

lemma example_azimuth:
  "sunAzimuthDegrees exampleEnv exampleFlight dep arr i = Num 180"
  by (simp add: sunAzimuthDegrees_def sunPositionAt_def exampleEnv_def trunc_def)

lemma example_bearing: "flightBearing exampleEnv dep arr = Num 90"
  by (simp add: flightBearing_def exampleEnv_def)

lemma example_side:
  "sideOf (azimuthDiff (Num 180) (Num 90)) = right"
  by (simp add: sideOf_def azimuthDiff_def)

lemma example_near:
  "isNearSunrise exampleEnv exampleFlight dep arr 0"
  "isNearSunrise exampleEnv exampleFlight dep arr 1"
  by (simp_all add: isNearSunrise_def sunTimesAt_def example_currentTime exampleEnv_def)

lemma example_location0:
  "locationAt exampleEnv exampleFlight JFK arr 0
     = \<lparr>lat = Num 40.64, lon = Num (- 73.78)\<rparr>"
  by (simp add: locationAt_def currentPosition_def progressAt_def timeOffsetMinutes_def
        intervalMinutes_def exampleFlight_def exampleEnv_def totalDistanceOf_def coordsOf_def
        JFK_def)

lemma example_floor: "- 5 < 18 / pi"
proof -
  have "0 < 18 / pi" using pi_gt_zero by simp
  then show ?thesis by linarith
qed

lemma example_eventAt:
  "eventAt exampleEnv exampleFlight JFK LHR 0 = Some exampleSunrise"
  "\<exists>e. eventAt exampleEnv exampleFlight JFK LHR 1 = Some e
       \<and> ev_type e = sunrise \<and> ev_time e = ValidDate 300000"
  "eventAt exampleEnv exampleFlight JFK LHR 2 = None"
  "eventAt exampleEnv exampleFlight JFK LHR 3 = None"
  by (simp_all add: eventAt_def example_sunVisible example_near example_elevation example_azimuth
        example_bearing example_side example_currentTime example_location0 exampleSunrise_def
        example_floor)

lemma example_sunEvents:
  "\<exists>e. st_sunEvents (sampled exampleEnv exampleFlight JFK LHR)
         = [exampleSunrise, e] \<and> ev_type e = sunrise \<and> ev_time e = ValidDate 300000"
  using example_eventAt(2)
  by (auto simp: sampled_sunEvents example_indices map_filter_simps example_eventAt(1,3,4))

lemma example_unique:
  assumes "ev_type e = sunrise" and "ev_time e = ValidDate 300000"
  shows "uniqueEvents [exampleSunrise, e] = [exampleSunrise]"
  using assms
  by (simp add: uniqueEvents_def retained_def enumerate_eq_zip upt_rec sameEvent_def
        exampleSunrise_def)

lemma example_events:
  "events (calculateSunPositionForFlight exampleEnv exampleFlight) = [exampleSunrise]"
proof -
  from found_result [OF example_departure example_arrival] obtain r c d where
    "events (calculateSunPositionForFlight exampleEnv exampleFlight) =
       uniqueEvents (st_sunEvents (sampled exampleEnv exampleFlight JFK
                                     LHR))"
    by (metis FlightRecommendation.select_convs(4))
  with example_sunEvents example_unique show ?thesis
    by auto
qed

lemma example_flightPath:
  "flightPath (globeData (calculateSunPositionForFlight exampleEnv exampleFlight)) =
     map (pointAt exampleEnv exampleFlight JFK LHR) [0, 1, 2, 3]"
proof -
  from found_result [OF example_departure example_arrival] obtain r c d where
    "calculateSunPositionForFlight exampleEnv exampleFlight =
         \<lparr>recommendation = r, confidence = c, description = d,
          events = uniqueEvents (st_sunEvents (sampled exampleEnv exampleFlight JFK LHR)),
          globeData =
            \<lparr>gd_departure = JFK, gd_arrival = LHR,
             flightPath = st_flightPath (sampled exampleEnv exampleFlight JFK LHR),
             totalDistance = totalDistanceOf exampleEnv JFK LHR,
             totalDuration = durationMinutes exampleFlight,
             summary =
               \<lparr>totalSunriseEvents =
                  length (filter (\<lambda>e. ev_type e = sunrise)
                            (uniqueEvents (st_sunEvents (sampled exampleEnv exampleFlight JFK LHR)))),
                totalSunsetEvents =
                  length (filter (\<lambda>e. ev_type e = sunset)
                            (uniqueEvents (st_sunEvents (sampled exampleEnv exampleFlight JFK LHR)))),
                averageSunVisibility =
                  (if length (st_flightPath (sampled exampleEnv exampleFlight JFK LHR)) > 0
                   then num_mul (num_div (Num (real (st_sunVisibleCount (sampled exampleEnv exampleFlight JFK LHR))))
                                   (Num (real (length (st_flightPath (sampled exampleEnv exampleFlight JFK LHR))))))
                          (Num 100)
                   else Num 0),
                bestViewingSide = r\<rparr>\<rparr>\<rparr>"
    by blast
  then show ?thesis
    by (simp add: sampled_flightPath example_indices)
qed

subsection \<open>The properties at the example flight\<close>

lemma example_point_fields:
  "viewingSide (pointAt exampleEnv exampleFlight JFK LHR 0) = Some right"
  "viewingSide (pointAt exampleEnv exampleFlight JFK LHR 3) = None"
  "elevation (sunPosition (pointAt exampleEnv exampleFlight JFK LHR 0)) = Num (18 / pi)"
  "azimuth (sunPosition (pointAt exampleEnv exampleFlight JFK LHR 0)) = Num 180"
  by (simp_all add: pointAt_def viewingSideAt_def example_sunVisible example_azimuth
        example_bearing example_side example_elevation)

lemma example_suncalc:
  "\<forall>t la lo. num_gt (sc_altitude (getPosition exampleEnv t la lo)) (Num 0) \<longrightarrow>
       (\<exists>a. sc_azimuth (getPosition exampleEnv t la lo) = Num a \<and> - pi \<le> a \<and> a \<le> pi)"
  by (simp add: exampleEnv_def)

theorem viewing_side_classification_witness:
  "getRhumbLineBearing exampleEnv (coordsOf JFK) (coordsOf LHR) = Num 90 \<and>
   num_gt (elevation (sunPosition (hd (flightPath (globeData
     (calculateSunPositionForFlight exampleEnv exampleFlight)))))) (Num 0) \<and>
   azimuthDiff (Num 180) (Num 90) = Num (normalize360 (180 - 90)) \<and>
   normalize360 (180 - 90) = 90 \<and>
   viewingSide (hd (flightPath (globeData
     (calculateSunPositionForFlight exampleEnv exampleFlight)))) = Some right \<and>
   viewingSide (last (flightPath (globeData
     (calculateSunPositionForFlight exampleEnv exampleFlight)))) = None"
proof -
  have b: "getRhumbLineBearing exampleEnv (coordsOf JFK) (coordsOf LHR) = Num 90"
    by (simp add: exampleEnv_def)
  have r: "(0::real) \<le> 90" "(90::real) < 360" by simp_all
  have up: "0 < 18 / pi" using pi_gt_zero by simp
  have n: "normalize360 (180 - 90) = 90"
    by (simp add: normalize360_def)
  let ?path = "flightPath (globeData (calculateSunPositionForFlight exampleEnv exampleFlight))"
  let ?p0 = "pointAt exampleEnv exampleFlight JFK LHR 0"
  let ?p3 = "pointAt exampleEnv exampleFlight JFK LHR 3"
  note all = viewing_side_classification [OF example_departure example_arrival b r example_suncalc]
  have in0: "?p0 \<in> set ?path" and in3: "?p3 \<in> set ?path"
    by (simp_all add: example_flightPath)
  have up0: "num_gt (elevation (sunPosition ?p0)) (Num 0)"
    using up by (simp add: example_point_fields(3))
  from bspec [OF all in0] up0
  obtain az where az: "azimuth (sunPosition ?p0) = Num az"
    and side: "viewingSide ?p0 =
            Some (if 0 < normalize360 (az - 90) \<and> normalize360 (az - 90) < 180
                  then right else left)"
    by blast
  from az have "az = 180" by (simp add: example_point_fields(4))
  with side have s0: "viewingSide ?p0 = Some right" by (simp add: normalize360_def)
  have "\<not> num_gt (elevation (sunPosition ?p3)) (Num 0)"
    using example_sunVisible(4) [of JFK LHR] by (simp add: pointAt_def sunVisible_def)
  with bspec [OF all in3] have s3: "viewingSide ?p3 = None" by blast
  have d: "azimuthDiff (Num 180) (Num 90) = Num (normalize360 (180 - 90))"
    by (simp add: azimuthDiff_def normalize360_def)
  have hd: "hd ?path = ?p0" and last: "last ?path = ?p3"
    by (simp_all add: example_flightPath)
  show ?thesis
    using b up0 d n s0 s3 unfolding hd last by blast
qed

subsection \<open>A duration that is not a whole number of milliseconds\<close>

lemma fractional_airports:
  "findAirport (airports exampleEnv) (departure fractionalFlight) = Some JFK"
  "findAirport (airports exampleEnv) (arrival fractionalFlight) = Some LHR"
  by (simp_all add: findAirport_def exampleEnv_def fractionalFlight_def exampleFlight_def
        exampleAirports_def JFK_def LHR_def)

lemma fractional_indices:
  "indicesFrom (numIntervals fractionalFlight) 0 = [0, 1, 2, 3, 4, 5, 6, 7]"
proof -
  have "\<lceil>30.000000001 / 5 :: real\<rceil> = 7" by (simp add: ceiling_eq_iff)
  then have "numIntervals fractionalFlight = Num 7"
    by (simp add: numIntervals_def fractionalFlight_def intervalMinutes_def)
  then show ?thesis
    by (simp add: indicesFrom_def upto_rec1)
qed

lemma path_of_found:
  assumes "findAirport (airports env) (departure fd) = Some dep"
    and "findAirport (airports env) (arrival fd) = Some arr"
  shows "flightPath (globeData (calculateSunPositionForFlight env fd)) =
     map (pointAt env fd dep arr) (indicesFrom (numIntervals fd) 0)"
proof -
  from found_result [OF assms] obtain r c d where
    "globeData (calculateSunPositionForFlight env fd) =
            \<lparr>gd_departure = dep, gd_arrival = arr,
             flightPath = st_flightPath (sampled env fd dep arr),
             totalDistance = totalDistanceOf env dep arr,
             totalDuration = durationMinutes fd,
             summary =
               \<lparr>totalSunriseEvents =
                  length (filter (\<lambda>e. ev_type e = sunrise)
                            (uniqueEvents (st_sunEvents (sampled env fd dep arr)))),
                totalSunsetEvents =
                  length (filter (\<lambda>e. ev_type e = sunset)
                            (uniqueEvents (st_sunEvents (sampled env fd dep arr)))),
                averageSunVisibility =
                  (if length (st_flightPath (sampled env fd dep arr)) > 0
                   then num_mul (num_div (Num (real (st_sunVisibleCount (sampled env fd dep arr))))
                                   (Num (real (length (st_flightPath (sampled env fd dep arr))))))
                          (Num 100)
                   else Num 0),
                bestViewingSide = r\<rparr>\<rparr>"
    by (metis FlightRecommendation.select_convs(5))
  then show ?thesis
    by (simp add: sampled_flightPath)
qed

lemma fractional_flightPath:
  "flightPath (globeData (calculateSunPositionForFlight exampleEnv fractionalFlight)) =
     map (pointAt exampleEnv fractionalFlight JFK LHR) [0, 1, 2, 3, 4, 5, 6, 7]"
  by (simp add: path_of_found [OF fractional_airports] fractional_indices)

lemma fractional_times:
  "currentTime fractionalFlight 6 = ValidDate 1800000"
  "currentTime fractionalFlight 7 = ValidDate 1800000"
  by (simp_all add: currentTime_def timeOffsetMinutes_def fractionalFlight_def exampleFlight_def
        intervalMinutes_def trunc_def)

text \<open>
  Without the condition on the duration the clauses on time fail. For a duration of
  30.000000001 minutes the duration is positive and both airports are found, yet the
  last two of the eight points have the same time, 1800000 ms after the departure, which
  is not the departure plus the duration (1800000.00006 ms).
\<close>

theorem flight_path_samples_counterexample:
  "findAirport (airports exampleEnv) (departure fractionalFlight) = Some JFK \<and>
   findAirport (airports exampleEnv) (arrival fractionalFlight) = Some LHR \<and>
   num_gt (durationMinutes fractionalFlight) (Num 0) \<and>
   length (flightPath (globeData (calculateSunPositionForFlight exampleEnv fractionalFlight))) = 8 \<and>
   time (flightPath (globeData (calculateSunPositionForFlight exampleEnv fractionalFlight)) ! 6)
     = ValidDate 1800000 \<and>
   time (flightPath (globeData (calculateSunPositionForFlight exampleEnv fractionalFlight)) ! 7)
     = ValidDate 1800000 \<and>
   \<not> num_lt
       (getTime (time (flightPath (globeData
          (calculateSunPositionForFlight exampleEnv fractionalFlight)) ! 6)))
       (getTime (time (flightPath (globeData
          (calculateSunPositionForFlight exampleEnv fractionalFlight)) ! 7))) \<and>
   getTime (time (last (flightPath (globeData
      (calculateSunPositionForFlight exampleEnv fractionalFlight))))) = Num 1800000 \<and>
   num_add (getTime (departureTime fractionalFlight))
     (num_mul (durationMinutes fractionalFlight) (Num 60000)) = Num 1800000.00006"
  by (simp add: fractional_airports fractional_flightPath pointAt_def fractional_times)
     (simp add: fractionalFlight_def exampleFlight_def)

text \<open>
  The clauses on time need a departure and an arrival that a \<open>Date\<close> can hold: with an
  Invalid Date as departure every point has an Invalid Date, and with the last instant
  of the range of \<open>Date\<close> as departure every point after the first has one.
\<close>

lemma invalid_departure_times:
  "currentTime invalidDeparture 0 = InvalidDate \<and> currentTime invalidDeparture 1 = InvalidDate \<and>
   \<not> num_lt (getTime (currentTime invalidDeparture 0)) (getTime (currentTime invalidDeparture 1))"
  by (simp add: currentTime_def invalidDeparture_def exampleFlight_def)

lemma late_departure_times:
  "currentTime lateDeparture 0 = ValidDate 8640000000000000 \<and>
   currentTime lateDeparture 1 = InvalidDate \<and>
   \<not> num_lt (getTime (currentTime lateDeparture 0)) (getTime (currentTime lateDeparture 1))"
  by (simp add: currentTime_def timeOffsetMinutes_def lateDeparture_def exampleFlight_def
        intervalMinutes_def trunc_def)

theorem flight_path_samples_witness:
  "durationMinutes exampleFlight = Num 12 \<and>
   length (flightPath (globeData (calculateSunPositionForFlight exampleEnv exampleFlight))) = 4 \<and>
   progress (hd (flightPath (globeData (calculateSunPositionForFlight exampleEnv exampleFlight))))
     = Num 0 \<and>
   progress (last (flightPath (globeData (calculateSunPositionForFlight exampleEnv exampleFlight))))
     = Num 1 \<and>
   progress (flightPath (globeData (calculateSunPositionForFlight exampleEnv exampleFlight)) ! 1)
     = Num (5 / 12) \<and>
   (12::real) * 60000 = real_of_int 720000 \<and>
   departureTime exampleFlight = ValidDate 0 \<and>
   time (hd (flightPath (globeData (calculateSunPositionForFlight exampleEnv exampleFlight))))
     = ValidDate 0 \<and>
   time (last (flightPath (globeData (calculateSunPositionForFlight exampleEnv exampleFlight))))
     = ValidDate 720000 \<and>
   time (flightPath (globeData (calculateSunPositionForFlight exampleEnv exampleFlight)) ! 2)
     = ValidDate 600000 \<and>
   durationMinutes fractionalFlight = Num 30.000000001 \<and>
   length (flightPath (globeData (calculateSunPositionForFlight exampleEnv fractionalFlight))) = 8 \<and>
   progress (last (flightPath (globeData (calculateSunPositionForFlight exampleEnv fractionalFlight))))
     = Num 1"
proof -
  have d: "durationMinutes exampleFlight = Num 12"
    and t: "departureTime exampleFlight = ValidDate 0"
    by (simp_all add: exampleFlight_def)
  have ms: "(12::real) * 60000 = real_of_int 720000" by simp
  have c: "\<lceil>12 / 5 :: real\<rceil> = 3" by (simp add: ceiling_eq_iff)
  have x: "(0::real) < 12" by simp
  note whole = flight_path_samples [OF example_departure example_arrival d x]
  from whole have "length (flightPath (globeData
      (calculateSunPositionForFlight exampleEnv exampleFlight))) = nat \<lceil>12 / 5 :: real\<rceil> + 1"
    by blast
  then have len: "length (flightPath (globeData
      (calculateSunPositionForFlight exampleEnv exampleFlight))) = 4"
    by (simp add: c)
  from whole have p1: "progress (hd (flightPath (globeData
      (calculateSunPositionForFlight exampleEnv exampleFlight)))) = Num 0"
    and p2: "progress (last (flightPath (globeData
      (calculateSunPositionForFlight exampleEnv exampleFlight)))) = Num 1"
    by blast+
  from len have "1 < length (flightPath (globeData
        (calculateSunPositionForFlight exampleEnv exampleFlight)))"
    by simp
  with whole have "progress (flightPath (globeData
       (calculateSunPositionForFlight exampleEnv exampleFlight)) ! 1)
       = Num (min (real 1 * 5) 12 / 12)"
    by blast
  then have p3: "progress (flightPath (globeData
       (calculateSunPositionForFlight exampleEnv exampleFlight)) ! 1) = Num (5 / 12)"
    by simp
  note p = p1 p2 p3
  have h: "(12::real) * 60000 = real_of_int 720000 \<and> departureTime exampleFlight = ValidDate 0 \<and>
            - 8640000000000000 \<le> (0::int) \<and> (0::int) + 720000 \<le> 8640000000000000"
    using t by simp
  note timing = whole [THEN conjunct2, THEN conjunct2, THEN conjunct2, THEN conjunct2,
      THEN conjunct2, rule_format, OF h]
  from timing t have tm1: "time (hd (flightPath (globeData
        (calculateSunPositionForFlight exampleEnv exampleFlight)))) = ValidDate 0"
    by simp
  from timing have tm2: "time (last (flightPath (globeData
        (calculateSunPositionForFlight exampleEnv exampleFlight)))) = ValidDate 720000"
    by simp
  from len have "2 < length (flightPath (globeData
        (calculateSunPositionForFlight exampleEnv exampleFlight)))"
    by simp
  with timing have "time (flightPath (globeData
        (calculateSunPositionForFlight exampleEnv exampleFlight)) ! 2)
          = ValidDate (0 + min (int 2 * 300000) 720000)"
    by blast
  then have tm3: "time (flightPath (globeData
        (calculateSunPositionForFlight exampleEnv exampleFlight)) ! 2) = ValidDate 600000"
    by simp
  note tm = tm1 tm2 tm3
  have d': "durationMinutes fractionalFlight = Num 30.000000001"
    by (simp add: fractionalFlight_def)
  have x': "(0::real) < 30.000000001" by simp
  have c': "\<lceil>30.000000001 / 5 :: real\<rceil> = 7" by (simp add: ceiling_eq_iff)
  note frac = flight_path_samples [OF fractional_airports d' x']
  from frac have "length (flightPath (globeData
       (calculateSunPositionForFlight exampleEnv fractionalFlight)))
       = nat \<lceil>30.000000001 / 5 :: real\<rceil> + 1"
    by blast
  then have f1: "length (flightPath (globeData
       (calculateSunPositionForFlight exampleEnv fractionalFlight))) = 8"
    by (simp add: c')
  from frac have f2: "progress (last (flightPath (globeData
       (calculateSunPositionForFlight exampleEnv fractionalFlight)))) = Num 1"
    by blast
  note f = f1 f2
  from d len p ms t tm d' f show ?thesis by blast
qed

theorem airport_not_found_result_witness:
  "findAirport (airports exampleEnv) (departure (exampleFlight\<lparr>departure := ''ZZZ''\<rparr>)) = None \<and>
   confidence (calculateSunPositionForFlight exampleEnv (exampleFlight\<lparr>departure := ''ZZZ''\<rparr>))
     = Num 0 \<and>
   recommendation (calculateSunPositionForFlight exampleEnv (exampleFlight\<lparr>departure := ''ZZZ''\<rparr>))
     = either \<and>
   description (calculateSunPositionForFlight exampleEnv (exampleFlight\<lparr>departure := ''ZZZ''\<rparr>))
     = ''Unable to calculate sun position: Airport not found: ZZZ'' \<and>
   name (gd_departure (globeData
     (calculateSunPositionForFlight exampleEnv (exampleFlight\<lparr>departure := ''ZZZ''\<rparr>))))
     = ''Unknown'' \<and>
   flightPath (globeData
     (calculateSunPositionForFlight exampleEnv (exampleFlight\<lparr>departure := ''ZZZ''\<rparr>))) = []"
proof -
  have none: "findAirport (airports exampleEnv) (departure (exampleFlight\<lparr>departure := ''ZZZ''\<rparr>))
              = None"
    by (simp add: findAirport_def exampleEnv_def exampleAirports_def JFK_def LHR_def)
  then have "findAirport (airports exampleEnv) (departure (exampleFlight\<lparr>departure := ''ZZZ''\<rparr>)) = None
     \<or> findAirport (airports exampleEnv) (arrival (exampleFlight\<lparr>departure := ''ZZZ''\<rparr>)) = None"
    by simp
  from airport_not_found_result [OF this] none show ?thesis
    by simp
qed

subsection \<open>A flight with several events\<close>

lemma eventful_airports:
  "findAirport (airports (eventfulEnv s)) (departure flight40) = Some JFK"
  "findAirport (airports (eventfulEnv s)) (arrival flight40) = Some LHR"
  "findAirport (airports (eventfulEnv s)) (departure flight25) = Some JFK"
  "findAirport (airports (eventfulEnv s)) (arrival flight25) = Some LHR"
  by (simp_all add: findAirport_def eventfulEnv_def exampleEnv_def flight40_def flight25_def
        exampleFlight_def exampleAirports_def JFK_def LHR_def)

lemma eventful_indices:
  "indicesFrom (numIntervals flight40) 0 = [0, 1, 2, 3, 4, 5, 6, 7, 8]"
  "indicesFrom (numIntervals flight25) 0 = [0, 1, 2, 3, 4, 5]"
  by (simp_all add: numIntervals_def flight40_def flight25_def exampleFlight_def
        intervalMinutes_def indicesFrom_def upto_rec1)

lemma eventful_currentTime:
  "map (currentTime flight40) [0, 1, 2, 3, 4, 5, 6, 7, 8] =
     map ValidDate [0, 300000, 600000, 900000, 1200000, 1500000, 1800000, 2100000, 2400000]"
  "map (currentTime flight25) [0, 1, 2, 3, 4, 5] =
     map ValidDate [0, 300000, 600000, 900000, 1200000, 1500000]"
  by (simp_all add: currentTime_def timeOffsetMinutes_def flight40_def flight25_def
        exampleFlight_def intervalMinutes_def trunc_def)

lemma eventful_azimuth:
  assumes "currentTime fd i = ValidDate t"
  shows "sunAzimuthDegrees (eventfulEnv s) fd dep arr i = (if t < s then Num 180 else Num 0)"
proof -
  have "- pi * 180 / pi + 180 = 0" by simp
  then have "num_rem (num_add (num_div (num_mul (Num (- pi)) (Num 180)) (Num pi)) (Num 180)) (Num 360)
             = Num 0"
    by (simp add: trunc_def)
  moreover have "num_rem (num_add (num_div (num_mul (Num 0) (Num 180)) (Num pi)) (Num 180)) (Num 360)
             = Num 180"
    by (simp add: trunc_def)
  ultimately show ?thesis
    using assms by (simp add: sunAzimuthDegrees_def sunPositionAt_def eventfulEnv_def)
qed

lemma eventful_elevation:
  "sunElevationDegrees (eventfulEnv s) fd dep arr i = Num (18 / pi)"
  by (simp add: sunElevationDegrees_def sunPositionAt_def eventfulEnv_def)

lemma eventful_visible: "sunVisible (eventfulEnv s) fd dep arr i"
  using pi_gt_zero by (simp add: sunVisible_def eventful_elevation)

lemma eventful_side:
  "sideOf (azimuthDiff (Num 180) (Num 90)) = right"
  "sideOf (azimuthDiff (Num 0) (Num 90)) = left"
  by (simp_all add: sideOf_def azimuthDiff_def)

lemma eventful_location:
  "locationAt (eventfulEnv s) fd JFK arr i = \<lparr>lat = Num 40.64, lon = Num (- 73.78)\<rparr>"
  by (simp add: locationAt_def currentPosition_def eventfulEnv_def coordsOf_def JFK_def)

lemma eventful_bearing: "flightBearing (eventfulEnv s) dep arr = Num 90"
  by (simp add: flightBearing_def eventfulEnv_def exampleEnv_def)

lemma eventful_eventAt:
  assumes t: "currentTime fd i = ValidDate t" and "0 \<le> t" and "t < 3300000"
  shows "eventAt (eventfulEnv s) fd JFK arr i =
     Some (eventfulEvent s (if 900000 \<le> t \<and> t < 1800000 then sunset else sunrise) t)"
proof -
  have floor: "- 5 < 18 / pi" by (rule example_floor)
  have times: "sunTimesAt (eventfulEnv s) fd JFK arr i =
      (if t < 900000 then \<lparr>sc_sunrise = ValidDate 0, sc_sunset = InvalidDate\<rparr>
       else if t < 1800000 then \<lparr>sc_sunrise = InvalidDate, sc_sunset = ValidDate 1200000\<rparr>
       else \<lparr>sc_sunrise = ValidDate 2400000, sc_sunset = InvalidDate\<rparr>)"
    by (simp add: sunTimesAt_def eventfulEnv_def t)
  consider "t < 900000" | "900000 \<le> t" "t < 1800000" | "1800000 \<le> t"
    by linarith
  then show ?thesis
  proof cases
    case 1
    with assms have "isNearSunrise (eventfulEnv s) fd JFK arr i"
      by (simp add: isNearSunrise_def times t)
    with 1 show ?thesis
      using floor
      by (simp add: eventAt_def eventful_visible eventful_elevation eventful_azimuth [OF t]
            eventful_bearing eventful_side eventful_location eventfulEvent_def t)
  next
    case 2
    then have "\<not> isNearSunrise (eventfulEnv s) fd JFK arr i"
      "isNearSunset (eventfulEnv s) fd JFK arr i"
      by (simp_all add: isNearSunrise_def isNearSunset_def times t)
    with 2 show ?thesis
      using floor
      by (simp add: eventAt_def eventful_visible eventful_elevation eventful_azimuth [OF t]
            eventful_bearing eventful_side eventful_location eventfulEvent_def t)
  next
    case 3
    with assms have "isNearSunrise (eventfulEnv s) fd JFK arr i"
      by (simp add: isNearSunrise_def times t)
    with 3 show ?thesis
      using floor
      by (simp add: eventAt_def eventful_visible eventful_elevation eventful_azimuth [OF t]
            eventful_bearing eventful_side eventful_location eventfulEvent_def t)
  qed
qed

lemma eventful_sunEvents40:
  "st_sunEvents (sampled (eventfulEnv s) flight40 JFK LHR) =
     [eventfulEvent s sunrise 0, eventfulEvent s sunrise 300000, eventfulEvent s sunrise 600000,
      eventfulEvent s sunset 900000, eventfulEvent s sunset 1200000, eventfulEvent s sunset 1500000,
      eventfulEvent s sunrise 1800000, eventfulEvent s sunrise 2100000,
      eventfulEvent s sunrise 2400000]"
  using eventful_currentTime(1)
  by (simp add: sampled_sunEvents eventful_indices map_filter_simps eventful_eventAt)

lemma eventful_sunEvents25:
  "st_sunEvents (sampled (eventfulEnv s) flight25 JFK LHR) =
     [eventfulEvent s sunrise 0, eventfulEvent s sunrise 300000, eventfulEvent s sunrise 600000,
      eventfulEvent s sunset 900000, eventfulEvent s sunset 1200000, eventfulEvent s sunset 1500000]"
  using eventful_currentTime(2)
  by (simp add: sampled_sunEvents eventful_indices map_filter_simps eventful_eventAt)

lemma sameEvent_eventful:
  "sameEvent (eventfulEvent s ty1 t1) (eventfulEvent s ty2 t2) \<longleftrightarrow>
     ty2 = ty1 \<and> \<bar>t2 - t1\<bar> < 600000"
proof -
  have "\<bar>real_of_int t2 - real_of_int t1\<bar> < 600000 \<longleftrightarrow> \<bar>t2 - t1\<bar> < 600000"
    by linarith
  then show ?thesis
    by (simp add: sameEvent_def eventfulEvent_def)
qed

lemma eventful_unique40:
  "uniqueEvents (st_sunEvents (sampled (eventfulEnv s) flight40 JFK LHR)) =
     [eventfulEvent s sunrise 0, eventfulEvent s sunset 900000, eventfulEvent s sunrise 1800000]"
  by (simp add: eventful_sunEvents40 uniqueEvents_def retained_def enumerate_eq_zip upt_rec
        sameEvent_eventful)

lemma eventful_unique25:
  "uniqueEvents (st_sunEvents (sampled (eventfulEnv s) flight25 JFK LHR)) =
     [eventfulEvent s sunrise 0, eventfulEvent s sunset 900000]"
  by (simp add: eventful_sunEvents25 uniqueEvents_def retained_def enumerate_eq_zip upt_rec
        sameEvent_eventful)

theorem recommendation_by_events_witness:
  "uniqueEvents (st_sunEvents (sampled (eventfulEnv 3000000) flight40 JFK LHR)) =
     [eventfulEvent 3000000 sunrise 0, eventfulEvent 3000000 sunset 900000,
      eventfulEvent 3000000 sunrise 1800000] \<and>
   recommendation (calculateSunPositionForFlight (eventfulEnv 3000000) flight40) = rec_right \<and>
   confidence (calculateSunPositionForFlight (eventfulEnv 3000000) flight40) = Num 95 \<and>
   length (events (calculateSunPositionForFlight (eventfulEnv 900000) flight40)) = 3 \<and>
   recommendation (calculateSunPositionForFlight (eventfulEnv 900000) flight40) = rec_left \<and>
   confidence (calculateSunPositionForFlight (eventfulEnv 900000) flight40) = Num 90 \<and>
   length (events (calculateSunPositionForFlight (eventfulEnv 900000) flight25)) = 2 \<and>
   recommendation (calculateSunPositionForFlight (eventfulEnv 900000) flight25) = either \<and>
   confidence (calculateSunPositionForFlight (eventfulEnv 900000) flight25) = Num 75"
proof -
  have ne40: "uniqueEvents (st_sunEvents (sampled (eventfulEnv s) flight40 JFK LHR)) \<noteq> []"
    and ne25: "uniqueEvents (st_sunEvents (sampled (eventfulEnv s) flight25 JFK LHR)) \<noteq> []" for s
    by (simp_all add: eventful_unique40 eventful_unique25)
  note a = recommendation_by_events [OF eventful_airports(1,2) ne40, of 3000000]
  note b = recommendation_by_events [OF eventful_airports(1,2) ne40, of 900000]
  note c = recommendation_by_events [OF eventful_airports(3,4) ne25, of 900000]
  from a have 1: "recommendation (calculateSunPositionForFlight (eventfulEnv 3000000) flight40) = rec_right
    \<and> confidence (calculateSunPositionForFlight (eventfulEnv 3000000) flight40) = Num 95"
    by (simp add: eventful_unique40 eventfulEvent_def)
  from b have 2: "length (events (calculateSunPositionForFlight (eventfulEnv 900000) flight40)) = 3
    \<and> recommendation (calculateSunPositionForFlight (eventfulEnv 900000) flight40) = rec_left
    \<and> confidence (calculateSunPositionForFlight (eventfulEnv 900000) flight40) = Num 90"
    by (simp add: eventful_unique40 eventfulEvent_def)
  from c have 3: "length (events (calculateSunPositionForFlight (eventfulEnv 900000) flight25)) = 2
    \<and> recommendation (calculateSunPositionForFlight (eventfulEnv 900000) flight25) = either
    \<and> confidence (calculateSunPositionForFlight (eventfulEnv 900000) flight25) = Num 75"
    by (simp add: eventful_unique25 eventfulEvent_def)
  from 1 2 3 show ?thesis
    by (simp add: eventful_unique40)
qed

theorem events_above_horizon_witness:
  "exampleSunrise \<in> set (events (calculateSunPositionForFlight exampleEnv exampleFlight)) \<and>
   num_gt (ev_elevation exampleSunrise) (Num 0)"
  using events_above_horizon [of exampleEnv exampleFlight]
  by (simp add: example_events)

lemma polar_departure:
  "findAirport (airports polarEnv) (departure exampleFlight) = Some JFK"
  by (simp add: findAirport_def polarEnv_def exampleEnv_def exampleFlight_def exampleAirports_def
        JFK_def LHR_def)

lemma polar_arrival:
  "findAirport (airports polarEnv) (arrival exampleFlight) = Some LHR"
  by (simp add: findAirport_def polarEnv_def exampleEnv_def exampleFlight_def exampleAirports_def
        JFK_def LHR_def)

lemma polar_sunVisible: "sunVisible polarEnv exampleFlight JFK LHR 0"
  by (simp add: sunVisible_def sunElevationDegrees_def sunPositionAt_def example_currentTime
        polarEnv_def exampleEnv_def)

lemma polar_sunTimes:
  "sunTimesAt polarEnv exampleFlight JFK LHR i
     = \<lparr>sc_sunrise = InvalidDate, sc_sunset = InvalidDate\<rparr>"
  by (simp add: sunTimesAt_def polarEnv_def)

theorem missing_sun_times_no_event_witness:
  "sunVisible polarEnv exampleFlight JFK LHR 0 \<and>
   sc_sunrise (sunTimesAt polarEnv exampleFlight JFK LHR 0) = InvalidDate \<and>
   sc_sunset (sunTimesAt polarEnv exampleFlight JFK LHR 0) = InvalidDate \<and>
   st_sunEvents (loop_body polarEnv exampleFlight JFK LHR 0 initialState) = [] \<and>
   calculate polarEnv exampleFlight = Inr (calculateSunPositionForFlight polarEnv exampleFlight) \<and>
   events (calculateSunPositionForFlight polarEnv exampleFlight) = [] \<and>
   exampleSunrise \<in> set (events (calculateSunPositionForFlight exampleEnv exampleFlight)) \<and>
   sc_sunrise (sunTimesAt exampleEnv exampleFlight JFK LHR 0) \<noteq> InvalidDate"
proof -
  note polar = missing_sun_times_no_event [OF polar_departure polar_arrival]
  from polar have ok: "calculate polarEnv exampleFlight
                       = Inr (calculateSunPositionForFlight polarEnv exampleFlight)"
    by blast
  from polar have "st_sunEvents (loop_body polarEnv exampleFlight JFK LHR 0 initialState)
                   = st_sunEvents initialState"
    using polar_sunTimes [of 0] by simp
  then have none: "st_sunEvents (loop_body polarEnv exampleFlight JFK LHR 0 initialState) = []"
    by (simp add: initialState_def)
  from polar have "\<forall>e \<in> set (events (calculateSunPositionForFlight polarEnv exampleFlight)).
      \<exists>i. ev_type e = sunrise \<longrightarrow> sc_sunrise (sunTimesAt polarEnv exampleFlight JFK LHR i) \<noteq> InvalidDate"
    by blast
  have empty: "events (calculateSunPositionForFlight polarEnv exampleFlight) = []"
  proof (rule ccontr)
    assume "events (calculateSunPositionForFlight polarEnv exampleFlight) \<noteq> []"
    then obtain e where e: "e \<in> set (events (calculateSunPositionForFlight polarEnv exampleFlight))"
      by (cases "events (calculateSunPositionForFlight polarEnv exampleFlight)") auto
    with polar obtain i where
      "ev_type e = sunrise \<longrightarrow> sc_sunrise (sunTimesAt polarEnv exampleFlight JFK LHR i) \<noteq> InvalidDate"
      "ev_type e = sunset \<longrightarrow> sc_sunset (sunTimesAt polarEnv exampleFlight JFK LHR i) \<noteq> InvalidDate"
      by blast
    then show False
      by (cases "ev_type e") (simp_all add: polar_sunTimes)
  qed
  note ex = missing_sun_times_no_event [OF example_departure example_arrival]
  have mem: "exampleSunrise \<in> set (events (calculateSunPositionForFlight exampleEnv exampleFlight))"
    by (simp add: example_events)
  have rise: "sc_sunrise (sunTimesAt exampleEnv exampleFlight JFK LHR 0) \<noteq> InvalidDate"
    by (simp add: sunTimesAt_def exampleEnv_def)
  from ex ok none empty mem rise polar_sunVisible polar_sunTimes [of 0]
  show ?thesis by simp
qed

lemma roundTrip_departure:
  "findAirport (airports exampleEnv) (departure roundTrip) = Some JFK"
  by (simp add: roundTrip_def findAirport_def exampleEnv_def exampleFlight_def exampleAirports_def
        JFK_def LHR_def)


subsection \<open>The destination point in double precision, and a duration of 0\<close>











end
